theory Spec2Isabelle
  imports Complex_Main "HOL-Library.Word" "HOL-Library.Signed_Division"
begin

unbundle bit_operations_syntax

section \<open>Machine values\<close>

text \<open>
  Go's \<open>int64\<close> and \<open>uint64\<close> are both 64-bit words; a conversion between them keeps
  the bits.  Signed reads go through \<open>sint\<close> (and the comparisons \<open><=s\<close>, \<open><s\<close>),
  unsigned ones through \<open>uint\<close> (and \<open>\<le>\<close>, \<open><\<close>).  A \<open>time.Time\<close> is the number of
  nanoseconds since the Unix epoch, a \<open>time.Duration\<close> an \<open>int64\<close> of nanoseconds.
  Every operation of the limiter is evaluated at one instant \<open>now\<close>, which stands
  for each \<open>time.Now()\<close> it reads.
\<close>

type_synonym byte = "8 word"
type_synonym bytes = "byte list"
type_synonym int64 = "64 word"
type_synonym uint64 = "64 word"
type_synonym time = int

text \<open>\<open>Time.Unix()\<close>: whole seconds since the epoch.\<close>

definition Unix :: "time \<Rightarrow> int64" where
  "Unix t = word_of_int (t div 1000000000)"

text \<open>\<open>Time.Add(d)\<close>.\<close>

definition Add :: "time \<Rightarrow> int64 \<Rightarrow> time" where
  "Add t d = t + sint d"

text \<open>\<open>Time.Sub(u)\<close>: the difference as a Duration, saturating at the ends of \<open>int64\<close>.\<close>

definition Sub :: "time \<Rightarrow> time \<Rightarrow> int64" where
  "Sub t u =
     (let d = t - u in
      if d > 9223372036854775807 then word_of_int 9223372036854775807
      else if d < - 9223372036854775808 then word_of_int (- 9223372036854775808)
      else word_of_int d)"

text \<open>Go's \<open>/\<close> on \<open>int64\<close> truncates towards zero; the caller checks the divisor.\<close>

definition div64 :: "int64 \<Rightarrow> int64 \<Rightarrow> int64" where
  "div64 a b = word_of_int (sint a sdiv sint b)"

subsection \<open>encoding/binary, big endian\<close>

text \<open>
  \<open>binary.BigEndian.PutUint64(b, v)\<close> writes \<open>byte(v >> 56), ..., byte(v)\<close> into
  \<open>b[0..7]\<close>; here it returns those eight bytes.
\<close>

definition PutUint64 :: "uint64 \<Rightarrow> bytes" where
  "PutUint64 v = map (\<lambda>i. ucast (drop_bit (8 * i) v)) [7, 6, 5, 4, 3, 2, 1, 0 :: nat]"

text \<open>
  \<open>binary.BigEndian.Uint64(b)\<close> starts with \<open>_ = b[7]\<close>, which panics with an index
  out of range when \<open>b\<close> has fewer than eight bytes (a nil slice has none); then
  it reads \<open>b[0..7]\<close>.  \<open>None\<close> is that panic.
\<close>

definition Uint64 :: "bytes \<Rightarrow> uint64 option" where
  "Uint64 b =
     (if length b < 8 then None
      else Some (foldl (\<lambda>acc x. push_bit 8 acc OR ucast x) 0 (take 8 b)))"

subsection \<open>float64\<close>

text \<open>
  The only floating-point computation of the program is the rate
  \<open>1e9 * float64(quantum) / float64(interval)\<close>, compared with \<open>==\<close>.  Its operands
  are 64-bit integers, so every intermediate value is 0 or has a magnitude between
  \<open>1e9 / 2^64\<close> and \<open>1e9 * 2^64\<close>: far from overflow and underflow.  In that range an
  IEEE 754 binary64 operation is the exact result rounded to 53 significant bits,
  ties to even, which \<open>round53\<close> computes on rationals.
\<close>

function bit_length :: "int \<Rightarrow> int" where
  "bit_length n = (if n \<le> 0 then 0 else 1 + bit_length (n div 2))"
  by pat_completeness auto
termination
  by (relation "measure nat") auto

definition pow2 :: "int \<Rightarrow> rat" where
  "pow2 k = (if 0 \<le> k then 2 ^ nat k else 1 / 2 ^ nat (- k))"

text \<open>The exponent \<open>e\<close> with \<open>2^e \<le> a < 2^(e+1)\<close>, for a positive rational \<open>a\<close>.\<close>

definition exponent :: "rat \<Rightarrow> int" where
  "exponent a =
     (let (n, d) = quotient_of a;
          e0 = bit_length n - bit_length d
      in if pow2 e0 \<le> a then e0 else e0 - 1)"

definition round53 :: "rat \<Rightarrow> rat" where
  "round53 x =
     (if x = 0 then 0
      else
        let a = \<bar>x\<bar>;
            u = pow2 (exponent a - 52);
            q = a / u;
            f = \<lfloor>q\<rfloor>;
            r = q - of_int f;
            m = (if r < 1 / 2 then f
                 else if 1 / 2 < r then f + 1
                 else if even f then f else f + 1)
        in sgn x * of_int m * u)"

datatype float64 = Finite rat | PosInf | NegInf | NaN

text \<open>\<open>1e9 * float64(q) / float64(i)\<close> for integers \<open>q\<close> and \<open>i\<close>.\<close>

definition rate_of :: "int \<Rightarrow> int \<Rightarrow> float64" where
  "rate_of q i =
     (let n = round53 (1000000000 * round53 (of_int q));
          d = round53 (of_int i)
      in if d = 0 then (if n = 0 then NaN else if 0 < n then PosInf else NegInf)
         else Finite (round53 (n / d)))"

text \<open>Go's \<open>==\<close> on float64: a NaN equals nothing, itself included.\<close>

definition float_eq :: "float64 \<Rightarrow> float64 \<Rightarrow> bool" where
  "float_eq a b = (a \<noteq> NaN \<and> a = b)"

section \<open>Panics\<close>

text \<open>
  A Go function either returns or panics.  A panic unwinds the whole call, so every
  function that can reach one returns a \<open>result\<close>, and \<open>and_then\<close> sequences two
  such calls.
\<close>

datatype panic =
    NilDereference      \<comment> \<open>a field read through a nil pointer\<close>
  | IndexOutOfRange     \<comment> \<open>a slice read past its length\<close>
  | DivideByZero        \<comment> \<open>integer division by zero\<close>
  | InvalidBucket       \<comment> \<open>the bucket constructor's own \<open>panic(...)\<close> calls\<close>

datatype 'a result = Return 'a | Panic panic

definition and_then :: "'a result \<Rightarrow> ('a \<Rightarrow> 'b result) \<Rightarrow> 'b result" where
  "and_then m f = (case m of Panic p \<Rightarrow> Panic p | Return x \<Rightarrow> f x)"

section \<open>The token bucket\<close>

text \<open>
  \<open>ratelimit.Bucket\<close> is the bucket of the library github.com/juju/ratelimit, which
  the limiter imports; it is the TokenBucket of the specification (4.1).  The
  limiter uses its constructor \<open>NewBucketWithQuantum\<close> and its methods
  \<open>TakeAvailable\<close>, \<open>Available\<close>, \<open>Capacity\<close> and \<open>Rate\<close>.  The library counts in
  \<open>int64\<close>, and time in ticks of \<open>fillInterval\<close> since the bucket's \<open>startTime\<close>: a
  bucket gains \<open>quantum\<close> tokens per tick, up to \<open>capacity\<close>.  At one instant, and
  for a count that is not negative, its \<open>TakeAvailable\<close> is the specification's:
  it gives out the smaller of the count and the tokens available.
\<close>

record Bucket =
  startTime :: time
  capacity :: int64
  quantum :: int64
  fillInterval :: int64
  availableTokens :: int64
  latestTick :: int64

text \<open>The constructor panics unless all three arguments are positive.\<close>

definition NewBucketWithQuantum ::
    "time \<Rightarrow> int64 \<Rightarrow> int64 \<Rightarrow> int64 \<Rightarrow> Bucket result" where
  "NewBucketWithQuantum now fill_interval cap quant =
     (if fill_interval <=s 0 then Panic InvalidBucket
      else if cap <=s 0 then Panic InvalidBucket
      else if quant <=s 0 then Panic InvalidBucket
      else Return \<lparr>startTime = now, capacity = cap, quantum = quant,
                   fillInterval = fill_interval, availableTokens = cap, latestTick = 0\<rparr>)"

text \<open>\<open>int64(now.Sub(tb.startTime) / tb.fillInterval)\<close>.\<close>

definition currentTick :: "Bucket \<Rightarrow> time \<Rightarrow> int64 result" where
  "currentTick tb now =
     (if fillInterval tb = 0 then Panic DivideByZero
      else Return (div64 (Sub now (startTime tb)) (fillInterval tb)))"

text \<open>
  The refill, as in release v1.0.1 of the library: a full bucket returns at once,
  with \<open>latestTick\<close> as it was; otherwise the tokens of the ticks since
  \<open>latestTick\<close> are added (in \<open>int64\<close>, wrapping), capped at the capacity, and
  \<open>latestTick\<close> becomes the current tick.  So a bucket that was full during some
  ticks is credited with those ticks at the first refill after a take.  (Release
  v1.0.2 moves the assignment of \<open>latestTick\<close> before the test; the two bodies
  differ only on a full bucket whose \<open>latestTick\<close> is not the current tick.)
\<close>

definition adjustavailableTokens :: "int64 \<Rightarrow> Bucket \<Rightarrow> Bucket" where
  "adjustavailableTokens tick tb =
     (if capacity tb <=s availableTokens tb then tb
      else
        let tb1 = tb\<lparr>availableTokens := availableTokens tb + (tick - latestTick tb) * quantum tb\<rparr>;
            tb2 = (if capacity tb1 <s availableTokens tb1
                   then tb1\<lparr>availableTokens := capacity tb1\<rparr>
                   else tb1)
        in tb2\<lparr>latestTick := tick\<rparr>)"

text \<open>
  \<open>TakeAvailable(count)\<close>: a count that is not positive takes nothing and does not
  even refill; otherwise refill, then take \<open>count\<close> tokens or all that are there.
  The result is the number taken and the bucket as the call leaves it.
\<close>

definition Bucket_TakeAvailable :: "time \<Rightarrow> int64 \<Rightarrow> Bucket \<Rightarrow> (int64 \<times> Bucket) result" where
  "Bucket_TakeAvailable now count tb =
     (if count <=s 0 then Return (0, tb)
      else and_then (currentTick tb now) (\<lambda>tick.
        let tb1 = adjustavailableTokens tick tb
        in if availableTokens tb1 <=s 0 then Return (0, tb1)
           else
             let count1 = (if availableTokens tb1 <s count then availableTokens tb1 else count)
             in Return (count1, tb1\<lparr>availableTokens := availableTokens tb1 - count1\<rparr>)))"

text \<open>\<open>Available()\<close> refills and reads the tokens; the refill stays in the bucket.\<close>

definition Bucket_Available :: "time \<Rightarrow> Bucket \<Rightarrow> (int64 \<times> Bucket) result" where
  "Bucket_Available now tb =
     and_then (currentTick tb now) (\<lambda>tick.
       let tb1 = adjustavailableTokens tick tb in Return (availableTokens tb1, tb1))"

definition Bucket_Capacity :: "Bucket \<Rightarrow> int64" where
  "Bucket_Capacity tb = capacity tb"

text \<open>\<open>Rate()\<close> is \<open>1e9 * float64(tb.quantum) / float64(tb.fillInterval)\<close>.\<close>

definition Bucket_Rate :: "Bucket \<Rightarrow> float64" where
  "Bucket_Rate tb = rate_of (sint (quantum tb)) (sint (fillInterval tb))"

section \<open>Config\<close>

record Config =
  Interval :: uint64
  Capacity :: uint64
  Quantum :: uint64

text \<open>
  \<open>compare\<close> reads \<open>bucket.Capacity()\<close> first: on a nil bucket that read is a nil
  pointer dereference.  \<open>None\<close> is the nil pointer.
\<close>

definition compare :: "Config \<Rightarrow> Bucket option \<Rightarrow> bool result" where
  "compare c bucket =
     (case bucket of
        None \<Rightarrow> Panic NilDereference
      | Some b \<Rightarrow>
          Return (Capacity c = Bucket_Capacity b \<and>
                  float_eq (rate_of (uint (Quantum c)) (uint (Interval c))) (Bucket_Rate b)))"

definition newBucket :: "time \<Rightarrow> Config \<Rightarrow> Bucket result" where
  "newBucket now c = NewBucketWithQuantum now (Interval c) (Capacity c) (Quantum c)"

section \<open>The store\<close>

text \<open>
  The limiter keeps three kinds of record in a LevelDB database
  (github.com/syndtr/goleveldb), read with \<open>Get\<close>, written with \<open>Put\<close> and removed
  with \<open>Delete\<close>.
\<close>

datatype kind = RateLimitBlacklist | RateLimitConfig | RateLimitCapacity

type_synonym key = "kind \<times> bytes"

text \<open>
  Modelled from the spec: \<open>db.Key\<close> of the package \<open>status-go/db\<close>, which is not among
  the sources.  The spec gives \<open>key(kind, prefix, identity) = kind_tag || prefix ||
  identity\<close>, where the tag keeps the three kinds of record apart; the tag is kept
  as the first component of the key.
\<close>

definition Key :: "kind \<Rightarrow> bytes \<Rightarrow> bytes \<Rightarrow> key" where
  "Key k pfx ident = (k, pfx @ ident)"

text \<open>
  A database is its records and, for every operation and key, whether that
  operation fails there with an I/O error.  A failing operation changes nothing.
\<close>

datatype db_op = OpGet | OpPut | OpDelete

record DB =
  records :: "key \<rightharpoonup> bytes"
  broken :: "db_op \<Rightarrow> key \<Rightarrow> bool"

text \<open>
  The error of a database call: \<open>None\<close> is Go's nil, \<open>ErrNotFound\<close> the sentinel
  \<open>leveldb.ErrNotFound\<close>, \<open>ErrIO\<close> any other error.
\<close>

datatype db_error = ErrNotFound | ErrIO

text \<open>\<open>Get\<close> returns a nil value (the empty slice) together with any error.\<close>

definition db_Get :: "DB \<Rightarrow> key \<Rightarrow> bytes \<times> db_error option" where
  "db_Get d k =
     (if broken d OpGet k then ([], Some ErrIO)
      else case records d k of
             None \<Rightarrow> ([], Some ErrNotFound)
           | Some v \<Rightarrow> (v, None))"

definition db_Put :: "DB \<Rightarrow> key \<Rightarrow> bytes \<Rightarrow> db_error option \<times> DB" where
  "db_Put d k v =
     (if broken d OpPut k then (Some ErrIO, d)
      else (None, d\<lparr>records := (records d)(k \<mapsto> v)\<rparr>))"

definition db_Delete :: "DB \<Rightarrow> key \<Rightarrow> db_error option \<times> DB" where
  "db_Delete d k =
     (if broken d OpDelete k then (Some ErrIO, d)
      else (None, d\<lparr>records := (records d)(k := None)\<rparr>))"

subsection \<open>The stored Config\<close>

text \<open>
  A config override is stored in RLP (github.com/ethereum/go-ethereum/rlp): the
  struct is a list of its three fields, each an unsigned integer.  An integer below
  128 is its own byte (but never the byte 0); any other is the byte \<open>0x80 + n\<close>
  followed by its \<open>n \<le> 8\<close> big-endian bytes without a leading zero; 0 is the empty
  string \<open>0x80\<close>.  \<open>rlp_uint64\<close> reads one integer from the front of a list's
  payload; \<open>None\<close> stands for every decoding error.
\<close>

definition rlp_uint64 :: "bytes \<Rightarrow> (uint64 \<times> bytes) option" where
  "rlp_uint64 b =
     (case b of
        [] \<Rightarrow> None
      | h # t \<Rightarrow>
          if h < 0x80 then (if h = 0 then None else Some (ucast h, t))
          else if h \<le> 0xB7 then
            (let n = unat h - 0x80; s = take n t in
             if length t < n then None
             else if 8 < n then None
             else if n = 0 then Some (0, t)
             else if hd s = 0 then None
             else if n = 1 \<and> hd s < 0x80 then None
             else Some (foldl (\<lambda>acc x. push_bit 8 acc OR ucast x) 0 s, drop n t))
          else None)"

text \<open>
  \<open>rlp.DecodeBytes(val, &cfg)\<close>: the input is one list, with nothing after it, of
  exactly three integers.  The three integers take at most 27 bytes, so a list in
  the long form (a payload of 56 bytes or more, first byte above \<open>0xF7\<close>) always
  has elements left over and is an error.
\<close>

definition rlp_DecodeBytes :: "bytes \<Rightarrow> Config option" where
  "rlp_DecodeBytes val =
     (case val of
        [] \<Rightarrow> None
      | h # payload \<Rightarrow>
          if h < 0xC0 then None
          else if 0xF7 < h then None
          else if length payload = unat h - 0xC0 then
            (case rlp_uint64 payload of
               None \<Rightarrow> None
             | Some (i, r1) \<Rightarrow>
                 (case rlp_uint64 r1 of
                    None \<Rightarrow> None
                  | Some (c, r2) \<Rightarrow>
                      (case rlp_uint64 r2 of
                         None \<Rightarrow> None
                       | Some (q, r3) \<Rightarrow>
                           if r3 = [] then Some \<lparr>Interval = i, Capacity = c, Quantum = q\<rparr>
                           else None)))
          else None)"

section \<open>The persisted rate limiter\<close>

text \<open>
  The errors the limiter returns, each built with \<open>fmt.Errorf\<close> in the source:
  \<open>BlacklistedError\<close> is "identity ... is blacklisted", \<open>PersistenceError\<close> a
  failed read or write of the store ("failed to read key ...", "error
  blacklisting ...", "failed to write current capacicity ..."), \<open>DecodeError\<close>
  "failed to decode bytes ... into Config object".  A Go \<open>error\<close> result is an
  \<open>error option\<close>, with \<open>None\<close> for nil.
\<close>

datatype error = BlacklistedError | PersistenceError | DecodeError

text \<open>What \<open>log.Error\<close> is called with.\<close>

datatype log_entry =
    UnexpectedLength nat   \<comment> \<open>"stored value is of unexpected length", with the length stored\<close>
  | StoreFailed            \<comment> \<open>the error of a failed \<open>store\<close>\<close>

text \<open>
  The limiter: its fields, and the lines logged so far.  \<open>initialized\<close> maps an
  identity to its bucket; the code never stores a nil bucket, so an entry is a
  bucket.  The mutex is left out: operations are taken one at a time.
\<close>

record PersistedRateLimiter =
  db :: DB
  prefix :: bytes
  defaultConfig :: Config
  initialized :: "bytes \<rightharpoonup> Bucket"
  logged :: "log_entry list"

definition NewPersisted :: "DB \<Rightarrow> Config \<Rightarrow> bytes \<Rightarrow> PersistedRateLimiter" where
  "NewPersisted d config pfx =
     \<lparr>db = d, prefix = pfx, defaultConfig = config, initialized = Map.empty, logged = []\<rparr>"

text \<open>
  \<open>blacklist\<close> stores the deadline, the Unix second of \<open>now + duration\<close>, as eight
  big-endian bytes.
\<close>

definition blacklist ::
    "time \<Rightarrow> bytes \<Rightarrow> int64 \<Rightarrow> PersistedRateLimiter \<Rightarrow> error option \<times> PersistedRateLimiter" where
  "blacklist now ident duration r =
     (let fkey = Key RateLimitBlacklist (prefix r) ident;
          buf = PutUint64 (Unix (Add now duration));
          (err, d) = db_Put (db r) fkey buf
      in if err \<noteq> None then (Some PersistenceError, r\<lparr>db := d\<rparr>)
         else (None, r\<lparr>db := d\<rparr>))"

text \<open>
  \<open>getOrCreate\<close> returns the registered bucket, or registers a new one built from
  \<open>config\<close>.
\<close>

definition getOrCreate ::
    "time \<Rightarrow> bytes \<Rightarrow> Config \<Rightarrow> PersistedRateLimiter \<Rightarrow> (Bucket \<times> PersistedRateLimiter) result" where
  "getOrCreate now ident config r =
     (case initialized r ident of
        None \<Rightarrow>
          and_then (newBucket now config) (\<lambda>bucket.
            Return (bucket, r\<lparr>initialized := (initialized r)(ident \<mapsto> bucket)\<rparr>))
      | Some old \<Rightarrow> Return (old, r))"

text \<open>
  \<open>Create\<close> runs in three steps.  The first is the blacklist check: unless the
  read said \<open>ErrNotFound\<close>, the value read is decoded as the deadline, and a
  deadline that is not before the current Unix second (compared as \<open>uint64\<close>)
  ends the call with an error; an older one is deleted, and the error of the
  delete is dropped.  \<open>Inl\<close> is the call's result when it ends here, \<open>Inr\<close> the
  limiter the next step starts from.
\<close>

definition Create_blacklist ::
    "time \<Rightarrow> bytes \<Rightarrow> PersistedRateLimiter \<Rightarrow>
       (error option \<times> PersistedRateLimiter) result + PersistedRateLimiter" where
  "Create_blacklist now ident r =
     (let fkey = Key RateLimitBlacklist (prefix r) ident;
          (val, err) = db_Get (db r) fkey
      in if err \<noteq> Some ErrNotFound then
           (case Uint64 val of
              None \<Rightarrow> Inl (Panic IndexOutOfRange)
            | Some deadline \<Rightarrow>
                if Unix now \<le> deadline then Inl (Return (Some BlacklistedError, r))
                else Inr (r\<lparr>db := snd (db_Delete (db r) fkey)\<rparr>))
         else Inr r)"

text \<open>
  The second step chooses the config: the default when there is no override, the
  decoded override otherwise; a failed read and a failed decoding end the call.
\<close>

definition Create_config ::
    "bytes \<Rightarrow> PersistedRateLimiter \<Rightarrow>
       (error option \<times> PersistedRateLimiter) result + Config" where
  "Create_config ident r =
     (let fkey = Key RateLimitConfig (prefix r) ident;
          (val, err) = db_Get (db r) fkey
      in if err = Some ErrNotFound then Inr (defaultConfig r)
         else if err \<noteq> None then Inl (Return (Some PersistenceError, r))
         else (case rlp_DecodeBytes val of
                 None \<Rightarrow> Inl (Return (Some DecodeError, r))
               | Some cfg \<Rightarrow> Inr cfg))"

text \<open>
  The third step gets the bucket and replays the stored snapshot: nothing when
  the read said \<open>ErrNotFound\<close>; a log line and nothing else when the value read
  is not 16 bytes long; otherwise the first eight bytes, read as the consumed
  amount, are taken from the bucket.  No token is added for the time since the
  snapshot.
\<close>

definition Create_restore ::
    "time \<Rightarrow> bytes \<Rightarrow> Config \<Rightarrow> PersistedRateLimiter \<Rightarrow>
       (error option \<times> PersistedRateLimiter) result" where
  "Create_restore now ident cfg r =
     and_then (getOrCreate now ident cfg r) (\<lambda>(bucket, r1).
       let fkey = Key RateLimitCapacity (prefix r1) ident;
           (val, err) = db_Get (db r1) fkey
       in if err = Some ErrNotFound then Return (None, r1)
          else if length val \<noteq> 16 then
            Return (None, r1\<lparr>logged := logged r1 @ [UnexpectedLength (length val)]\<rparr>)
          else
            (case Uint64 (take 8 val) of
               None \<Rightarrow> Panic IndexOutOfRange
             | Some consumed \<Rightarrow>
                 and_then (Bucket_TakeAvailable now consumed bucket) (\<lambda>(_, bucket1).
                   Return (None, r1\<lparr>initialized := (initialized r1)(ident \<mapsto> bucket1)\<rparr>))))"

definition Create ::
    "time \<Rightarrow> bytes \<Rightarrow> PersistedRateLimiter \<Rightarrow> (error option \<times> PersistedRateLimiter) result" where
  "Create now ident r =
     (case Create_blacklist now ident r of
        Inl res \<Rightarrow> res
      | Inr r1 \<Rightarrow>
          (case Create_config ident r1 of
             Inl res \<Rightarrow> res
           | Inr cfg \<Rightarrow> Create_restore now ident cfg r1))"

text \<open>
  \<open>store\<close> writes the snapshot of a bucket: the consumed amount
  \<open>Capacity() - Available()\<close>, then the current Unix second, eight big-endian
  bytes each.  \<open>Available()\<close> refills the bucket, so the bucket is returned too.
\<close>

definition store ::
    "time \<Rightarrow> bytes \<Rightarrow> Bucket \<Rightarrow> PersistedRateLimiter \<Rightarrow>
       (error option \<times> Bucket \<times> PersistedRateLimiter) result" where
  "store now ident bucket r =
     and_then (Bucket_Available now bucket) (\<lambda>(avail, bucket1).
       let buf = PutUint64 (Bucket_Capacity bucket1 - avail) @ PutUint64 (Unix now);
           (err, d) = db_Put (db r) (Key RateLimitCapacity (prefix r) ident) buf
       in Return (if err \<noteq> None then Some PersistenceError else None, bucket1, r\<lparr>db := d\<rparr>))"

text \<open>
  \<open>Remove\<close> bans the identity when the duration is not 0, takes the bucket out
  of memory and stores its snapshot.
\<close>

definition Remove ::
    "time \<Rightarrow> bytes \<Rightarrow> int64 \<Rightarrow> PersistedRateLimiter \<Rightarrow>
       (error option \<times> PersistedRateLimiter) result" where
  "Remove now ident duration r =
     (let (err, r1) = (if duration \<noteq> 0 then blacklist now ident duration r else (None, r))
      in if err \<noteq> None then Return (err, r1)
         else
           let bucket = initialized r1 ident;
               r2 = r1\<lparr>initialized := (initialized r1)(ident := None)\<rparr>
           in case bucket of
                None \<Rightarrow> Return (None, r2)
              | Some b \<Rightarrow> and_then (store now ident b r2) (\<lambda>(err1, _, r3). Return (err1, r3)))"

text \<open>
  \<open>TakeAvailable\<close> takes from the identity's bucket, made from the default config
  when there is none, and stores the snapshot; a failed store is logged.
\<close>

definition TakeAvailable ::
    "time \<Rightarrow> bytes \<Rightarrow> int64 \<Rightarrow> PersistedRateLimiter \<Rightarrow> (int64 \<times> PersistedRateLimiter) result" where
  "TakeAvailable now ident count r =
     and_then (getOrCreate now ident (defaultConfig r) r) (\<lambda>(bucket, r1).
     and_then (Bucket_TakeAvailable now count bucket) (\<lambda>(rst, bucket1).
     and_then (store now ident bucket1 r1) (\<lambda>(err, bucket2, r2).
       let r3 = r2\<lparr>initialized := (initialized r2)(ident \<mapsto> bucket2)\<rparr>
       in Return (rst, if err \<noteq> None then r3\<lparr>logged := logged r3 @ [StoreFailed]\<rparr> else r3))))"

definition Available ::
    "time \<Rightarrow> bytes \<Rightarrow> PersistedRateLimiter \<Rightarrow> (int64 \<times> PersistedRateLimiter) result" where
  "Available now ident r =
     and_then (getOrCreate now ident (defaultConfig r) r) (\<lambda>(bucket, r1).
     and_then (Bucket_Available now bucket) (\<lambda>(avail, bucket1).
       Return (avail, r1\<lparr>initialized := (initialized r1)(ident \<mapsto> bucket1)\<rparr>)))"

text \<open>
  \<open>UpdateConfig\<close> compares the config with the bucket found in the map (nil when
  there is none), returns when they agree, and otherwise replaces the bucket by
  one made from the config, from which it takes what the old one had consumed.
\<close>

definition UpdateConfig ::
    "time \<Rightarrow> bytes \<Rightarrow> Config \<Rightarrow> PersistedRateLimiter \<Rightarrow>
       (error option \<times> PersistedRateLimiter) result" where
  "UpdateConfig now ident config r =
     (let old = initialized r ident in
      and_then (compare config old) (\<lambda>same.
        if same then Return (None, r)
        else
          let r1 = r\<lparr>initialized := (initialized r)(ident := None)\<rparr> in
          and_then
            (case old of
               None \<Rightarrow> Return 0
             | Some b \<Rightarrow>
                 and_then (Bucket_Available now b) (\<lambda>(avail, _). Return (Bucket_Capacity b - avail)))
            (\<lambda>taken.
          and_then (getOrCreate now ident config r1) (\<lambda>(bucket, r2).
          and_then (Bucket_TakeAvailable now taken bucket) (\<lambda>(_, bucket1).
            Return (None, r2\<lparr>initialized := (initialized r2)(ident \<mapsto> bucket1)\<rparr>))))))"

text \<open>A run of \<open>TakeAvailable\<close> calls for one identity at one instant.\<close>

fun take_all ::
    "time \<Rightarrow> bytes \<Rightarrow> int64 list \<Rightarrow> PersistedRateLimiter \<Rightarrow>
       (int64 list \<times> PersistedRateLimiter) result" where
  "take_all now ident [] r = Return ([], r)"
| "take_all now ident (n # ns) r =
     and_then (TakeAvailable now ident n r) (\<lambda>(t, r1).
     and_then (take_all now ident ns r1) (\<lambda>(ts, r2). Return (t # ts, r2)))"

subsection \<open>The scenarios of the specification\<close>

definition healthy_db :: DB where
  "healthy_db = \<lparr>records = Map.empty, broken = (\<lambda>_ _. False)\<rparr>"

definition config10 :: Config where
  "config10 = \<lparr>Interval = 1000000000, Capacity = 10, Quantum = 1\<rparr>"

definition alice :: bytes where
  "alice = [0x61, 0x6C, 0x69, 0x63, 0x65]"

definition bob :: bytes where
  "bob = [0x62, 0x6F, 0x62]"

definition limiter0 :: PersistedRateLimiter where
  "limiter0 = NewPersisted healthy_db config10 []"

text \<open>A store whose read of alice's blacklist record fails with an I/O error.\<close>

definition blacklist_read_fails :: DB where
  "blacklist_read_fails =
     healthy_db\<lparr>broken := (\<lambda>op k. op = OpGet \<and> k = Key RateLimitBlacklist [] alice)\<rparr>"

text \<open>A store whose read of alice's capacity snapshot fails with an I/O error.\<close>

definition capacity_read_fails :: DB where
  "capacity_read_fails =
     healthy_db\<lparr>broken := (\<lambda>op k. op = OpGet \<and> k = Key RateLimitCapacity [] alice)\<rparr>"

text \<open>The limiter after bob was banned until the Unix second 1060.\<close>

definition banned_bob :: PersistedRateLimiter where
  "banned_bob =
     limiter0\<lparr>db := healthy_db\<lparr>records := [Key RateLimitBlacklist [] bob \<mapsto> PutUint64 1060]\<rparr>\<rparr>"

text \<open>A store whose write of alice's capacity snapshot fails with an I/O error.\<close>

definition capacity_write_fails :: DB where
  "capacity_write_fails =
     healthy_db\<lparr>broken := (\<lambda>op k. op = OpPut \<and> k = Key RateLimitCapacity [] alice)\<rparr>"

text \<open>A bucket made from \<open>config10\<close> at time 0, holding the given number of tokens.\<close>

definition bucket10 :: "int64 \<Rightarrow> Bucket" where
  "bucket10 tokens =
     \<lparr>startTime = 0, capacity = 10, quantum = 1, fillInterval = 1000000000,
      availableTokens = tokens, latestTick = 0\<rparr>"

text \<open>The limiter after alice took 7 tokens at time 0.\<close>

definition took7 :: PersistedRateLimiter where
  "took7 =
     limiter0\<lparr>db := healthy_db\<lparr>records :=
                  [Key RateLimitCapacity [] alice \<mapsto> PutUint64 7 @ PutUint64 0]\<rparr>,
              initialized := [alice \<mapsto> bucket10 3]\<rparr>"

text \<open>A new limiter over a store that holds a four-byte capacity snapshot for alice.\<close>

definition malformed_alice :: PersistedRateLimiter where
  "malformed_alice =
     limiter0\<lparr>db := healthy_db\<lparr>records := [Key RateLimitCapacity [] alice \<mapsto> [0, 0, 0, 7]]\<rparr>\<rparr>"

text \<open>The limiter after alice, who had taken 7 tokens, was removed at time 0 without a ban.\<close>

definition removed7 :: PersistedRateLimiter where
  "removed7 =
     limiter0\<lparr>db := healthy_db\<lparr>records :=
                  [Key RateLimitCapacity [] alice \<mapsto> PutUint64 7 @ PutUint64 0]\<rparr>\<rparr>"

text \<open>
  Three more configs: a smaller capacity, a larger capacity, and the capacity and
  rate of \<open>config10\<close> written as two tokens every two seconds.
\<close>

definition config5 :: Config where
  "config5 = \<lparr>Interval = 1000000000, Capacity = 5, Quantum = 1\<rparr>"

definition config20 :: Config where
  "config20 = \<lparr>Interval = 1000000000, Capacity = 20, Quantum = 1\<rparr>"

definition config_2_per_2s :: Config where
  "config_2_per_2s = \<lparr>Interval = 2000000000, Capacity = 10, Quantum = 2\<rparr>"

text \<open>A bucket made from \<open>config5\<close> at time 0, holding the given number of tokens.\<close>

definition bucket5 :: "int64 \<Rightarrow> Bucket" where
  "bucket5 tokens =
     \<lparr>startTime = 0, capacity = 5, quantum = 1, fillInterval = 1000000000,
      availableTokens = tokens, latestTick = 0\<rparr>"

text \<open>The limiter after \<open>Create\<close> or \<open>Available\<close> gave alice her bucket at time 0.\<close>

definition created10 :: PersistedRateLimiter where
  "created10 = limiter0\<lparr>initialized := [alice \<mapsto> bucket10 10]\<rparr>"


text \<open>A bucket made from \<open>config20\<close> at time 0, holding the given number of tokens.\<close>

definition bucket20 :: "int64 \<Rightarrow> Bucket" where
  "bucket20 tokens =
     \<lparr>startTime = 0, capacity = 20, quantum = 1, fillInterval = 1000000000,
      availableTokens = tokens, latestTick = 0\<rparr>"

text \<open>
  A round trip across two configs, all at time 0 but the last step: alice's bucket
  is replaced by one of capacity 20, she takes 14, and she is removed without a ban;
  100 seconds later \<open>Create\<close> gives her a bucket of the default capacity 10.
\<close>

definition created20 :: PersistedRateLimiter where
  "created20 = limiter0\<lparr>initialized := [alice \<mapsto> bucket20 20]\<rparr>"

definition took14 :: PersistedRateLimiter where
  "took14 =
     limiter0\<lparr>db := healthy_db\<lparr>records :=
                  [Key RateLimitCapacity [] alice \<mapsto> PutUint64 14 @ PutUint64 0]\<rparr>,
              initialized := [alice \<mapsto> bucket20 6]\<rparr>"

definition removed14 :: PersistedRateLimiter where
  "removed14 =
     limiter0\<lparr>db := healthy_db\<lparr>records :=
                  [Key RateLimitCapacity [] alice \<mapsto> PutUint64 14 @ PutUint64 0]\<rparr>\<rparr>"

definition restored14 :: PersistedRateLimiter where
  "restored14 =
     removed14\<lparr>initialized :=
       [alice \<mapsto> \<lparr>startTime = 100000000000, capacity = 10, quantum = 1,
                  fillInterval = 1000000000, availableTokens = 0, latestTick = 0\<rparr>]\<rparr>"

text \<open>The capacity of \<open>config10\<close> at twice its rate.\<close>

definition config10_double :: Config where
  "config10_double = \<lparr>Interval = 1000000000, Capacity = 10, Quantum = 2\<rparr>"

section \<open>Properties\<close>

subsection \<open>Big-endian round trip\<close>

lemma be_step:
  "push_bit 8 (drop_bit (8 + s) (v :: 64 word)) OR ucast (ucast (drop_bit s v) :: 8 word)
     = drop_bit s v"
proof (rule bit_word_eqI)
  fix n assume "n < LENGTH(64)"
  then show "bit (push_bit 8 (drop_bit (8 + s) v) OR ucast (ucast (drop_bit s v) :: 8 word)) n
      = bit (drop_bit s v) n"
    by (cases "n < 8") (auto simp add: bit_simps ac_simps)
qed

lemma be_top: "ucast (ucast (drop_bit 56 (v :: 64 word)) :: 8 word) = (drop_bit 56 v :: 64 word)"
  using be_step [of 56 v] by simp

lemma length_PutUint64 [simp]: "length (PutUint64 v) = 8"
  by (simp add: PutUint64_def)

lemma Uint64_PutUint64 [simp]: "Uint64 (PutUint64 v @ rest) = Some v"
proof -
  have "foldl (\<lambda>acc x. push_bit 8 acc OR ucast x) (0 :: 64 word) (PutUint64 v) = v"
    unfolding PutUint64_def
    using be_step [of 48 v] be_step [of 40 v] be_step [of 32 v] be_step [of 24 v]
      be_step [of 16 v] be_step [of 8 v] be_step [of 0 v] be_top [of v]
    by simp
  then show ?thesis by (simp add: Uint64_def)
qed

lemma Uint64_PutUint64_only [simp]: "Uint64 (PutUint64 v) = Some v"
  using Uint64_PutUint64 [of v "[]"] by simp

subsection \<open>The steps of Create\<close>

lemma Create_restore_no_error:
  "Create_restore now ident cfg r = Return (e, r') \<Longrightarrow> e = None"
  by (auto simp add: Create_restore_def and_then_def Let_def
      split: result.splits prod.splits if_splits option.splits)

lemma Create_config_Inl:
  "Create_config ident r = Inl res \<Longrightarrow>
   res = Return (Some PersistenceError, r) \<or> res = Return (Some DecodeError, r)"
  by (auto simp add: Create_config_def Let_def split: prod.splits if_splits option.splits)

lemma UpdateConfig_unregistered:
  "initialized r ident = None \<Longrightarrow> UpdateConfig now ident config r = Panic NilDereference"
  by (simp add: UpdateConfig_def compare_def and_then_def)

lemma Create_blacklist_read_error:
  "broken (db r) OpGet (Key RateLimitBlacklist (prefix r) ident) \<Longrightarrow>
   Create now ident r = Panic IndexOutOfRange"
  by (simp add: Create_def Create_blacklist_def db_Get_def Uint64_def)

subsection \<open>Evaluation\<close>

lemmas bucket_eval = newBucket_def NewBucketWithQuantum_def Bucket_Available_def
  Bucket_TakeAvailable_def Bucket_Capacity_def currentTick_def adjustavailableTokens_def
  and_then_def Let_def word_sle_eq word_sless_alt div64_def Sub_def Unix_def Add_def

lemmas scenario_eval = limiter0_def NewPersisted_def healthy_db_def config10_def bucket10_def

subsection \<open>The bucket at one instant\<close>

lemma sint_diff_no_wrap:
  fixes x y :: "64 word"
  assumes "0 \<le> sint y" "sint y \<le> sint x"
  shows "sint (x - y) = sint x - sint y"
proof -
  have "sint x < 2 ^ 63" using sint_lt [of x] by simp
  with assms have "- (2 ^ 63) \<le> sint x - sint y" "sint x - sint y < 2 ^ 63" by simp_all
  then have "signed_take_bit 63 (sint x - sint y) = sint x - sint y"
    by (simp add: signed_take_bit_int_eq_self)
  then show ?thesis by (simp add: sint_word_ariths)
qed

text \<open>
  A bucket is settled at \<open>now\<close> when its last refill was in the tick of \<open>now\<close>: a
  further refill at \<open>now\<close> changes nothing.
\<close>

lemma adjust_same_tick: "adjustavailableTokens (latestTick b) b = b"
  by (simp add: adjustavailableTokens_def Let_def word_sle_eq word_sless_alt)



lemma adjust_fields [simp]:
  "fillInterval (adjustavailableTokens t b) = fillInterval b"
  "startTime (adjustavailableTokens t b) = startTime b"
  "capacity (adjustavailableTokens t b) = capacity b"
  "quantum (adjustavailableTokens t b) = quantum b"
  by (simp_all add: adjustavailableTokens_def Let_def)




lemma currentTick_tokens [simp]:
  "currentTick (b\<lparr>availableTokens := x\<rparr>) now = currentTick b now"
  by (simp add: currentTick_def)

lemma Bucket_Available_settled:
  "currentTick b now = Return (latestTick b) \<Longrightarrow>
   Bucket_Available now b = Return (availableTokens b, b)"
  by (simp add: Bucket_Available_def and_then_def adjust_same_tick)





subsection \<open>The registry\<close>

lemma getOrCreate_frame:
  "getOrCreate now ident cfg r = Return (b, r1) \<Longrightarrow>
   db r1 = db r \<and> prefix r1 = prefix r \<and> defaultConfig r1 = defaultConfig r \<and>
   logged r1 = logged r \<and> initialized r1 = (initialized r)(ident \<mapsto> b)"
  by (auto simp add: getOrCreate_def and_then_def split: option.splits result.splits)

lemma getOrCreate_db:
  "getOrCreate now ident cfg r = Return (b, r1) \<Longrightarrow>
   getOrCreate now ident cfg (r\<lparr>db := d\<rparr>) = Return (b, r1\<lparr>db := d\<rparr>)"
  by (auto simp add: getOrCreate_def and_then_def split: option.splits result.splits)

lemma TakeAvailable_Return:
  assumes "TakeAvailable now ident count r = Return (rst, r')"
  obtains bucket r1 bucket1 avail bucket2 where
    "getOrCreate now ident (defaultConfig r) r = Return (bucket, r1)"
    "Bucket_TakeAvailable now count bucket = Return (rst, bucket1)"
    "Bucket_Available now bucket1 = Return (avail, bucket2)"
    "initialized r' = (initialized r1)(ident \<mapsto> bucket2)"
  using assms
  by (auto simp add: TakeAvailable_def store_def and_then_def Let_def
      split: result.splits prod.splits if_splits)

lemma TakeAvailable_eval:
  assumes "getOrCreate now ident (defaultConfig r) r = Return (bucket, r1)"
    and "Bucket_TakeAvailable now count bucket = Return (rst, bucket1)"
    and "Bucket_Available now bucket1 = Return (avail, bucket2)"
  shows "TakeAvailable now ident count r =
    Return (rst,
      if broken (db r) OpPut (Key RateLimitCapacity (prefix r) ident)
      then r1\<lparr>initialized := (initialized r1)(ident \<mapsto> bucket2), logged := logged r @ [StoreFailed]\<rparr>
      else r1\<lparr>db := (db r)\<lparr>records := (records (db r))(Key RateLimitCapacity (prefix r) ident \<mapsto>
                 PutUint64 (Bucket_Capacity bucket2 - avail) @ PutUint64 (Unix now))\<rparr>,
              initialized := (initialized r1)(ident \<mapsto> bucket2)\<rparr>)"
  using assms getOrCreate_frame [OF assms(1)]
  by (simp add: TakeAvailable_def store_def and_then_def Let_def db_Put_def)


lemma Available_registered:
  assumes "initialized r ident = Some b" "Bucket_Available now b = Return (a, b0)"
  shows "Available now ident r = Return (a, r\<lparr>initialized := (initialized r)(ident \<mapsto> b0)\<rparr>)"
  using assms by (simp add: Available_def getOrCreate_def and_then_def)







lemma Create_blacklist_frame:
  assumes "Create_blacklist now ident r = Inr r1"
  shows "prefix r1 = prefix r \<and> defaultConfig r1 = defaultConfig r \<and>
    initialized r1 = initialized r \<and> logged r1 = logged r \<and>
    broken (db r1) = broken (db r) \<and>
    records (db r1) (Key RateLimitCapacity pfx i) = records (db r) (Key RateLimitCapacity pfx i) \<and>
    records (db r1) (Key RateLimitConfig pfx i) = records (db r) (Key RateLimitConfig pfx i)"
  using assms
  by (auto simp add: Create_blacklist_def db_Get_def db_Delete_def Let_def Key_def
      split: if_splits option.splits)

subsection \<open>New buckets, removal and restoring\<close>

lemma newBucket_valid:
  assumes "0 <s Interval cfg" "0 <s Capacity cfg" "0 <s Quantum cfg"
  shows "newBucket now cfg =
    Return \<lparr>startTime = now, capacity = Capacity cfg, quantum = Quantum cfg,
            fillInterval = Interval cfg, availableTokens = Capacity cfg, latestTick = 0\<rparr>"
  using assms by (simp add: newBucket_def NewBucketWithQuantum_def word_sle_eq word_sless_alt)

lemma currentTick_at_start:
  "fillInterval b \<noteq> 0 \<Longrightarrow> startTime b = now \<Longrightarrow> currentTick b now = Return 0"
  by (simp add: currentTick_def Sub_def div64_def)

lemma Bucket_TakeAvailable_exact:
  assumes s: "currentTick b now = Return (latestTick b)"
    and a: "0 <=s availableTokens b"
  shows "Bucket_TakeAvailable now n b =
     Return (if n <=s 0 then 0 else if availableTokens b <s n then availableTokens b else n,
             b\<lparr>availableTokens :=
                 availableTokens b -
                 (if n <=s 0 then 0 else if availableTokens b <s n then availableTokens b else n)\<rparr>)"
proof (cases "n <=s 0")
  case True
  then show ?thesis
    by (simp add: Bucket_TakeAvailable_def)
next
  case False
  show ?thesis
  proof (cases "availableTokens b <=s 0")
    case True
    with a have "sint (availableTokens b) = 0" by (simp add: word_sle_eq)
    then have "availableTokens b = 0" by (simp add: signed_eq_0_iff)
    with False s show ?thesis
      by (simp add: Bucket_TakeAvailable_def and_then_def adjust_same_tick word_sle_eq word_sless_alt)
  next
    case avail: False
    with False s show ?thesis
      by (simp add: Bucket_TakeAvailable_def and_then_def adjust_same_tick Let_def)
  qed
qed

lemma Remove_zero:
  assumes i: "initialized r ident = Some b"
    and a: "Bucket_Available t0 b = Return (avail, b')"
    and put_ok: "\<not> broken (db r) OpPut (Key RateLimitCapacity (prefix r) ident)"
  shows "Remove t0 ident 0 r =
    Return (None, r\<lparr>db := (db r)\<lparr>records := (records (db r))
                (Key RateLimitCapacity (prefix r) ident \<mapsto>
                   PutUint64 (capacity b - avail) @ PutUint64 (Unix t0))\<rparr>,
              initialized := (initialized r)(ident := None)\<rparr>)"
proof -
  from a have "capacity b' = capacity b"
    by (auto simp add: Bucket_Available_def and_then_def Let_def split: result.splits)
  with assms show ?thesis
    by (simp add: Remove_def store_def db_Put_def and_then_def Bucket_Capacity_def)
qed

lemma Create_restore_snapshot:
  assumes fresh: "initialized r ident = None"
    and valid: "0 <s Interval cfg" "0 <s Capacity cfg" "0 <s Quantum cfg"
    and rec: "records (db r) (Key RateLimitCapacity (prefix r) ident) = Some (PutUint64 c @ PutUint64 s)"
    and ok: "\<not> broken (db r) OpGet (Key RateLimitCapacity (prefix r) ident)"
  shows "Create_restore now ident cfg r =
    Return (None, r\<lparr>initialized := (initialized r)(ident \<mapsto>
       \<lparr>startTime = now, capacity = Capacity cfg, quantum = Quantum cfg,
        fillInterval = Interval cfg,
        availableTokens = Capacity cfg -
          (if c <=s 0 then 0 else if Capacity cfg <s c then Capacity cfg else c),
        latestTick = 0\<rparr>)\<rparr>)"
proof -
  define nb where "nb = \<lparr>startTime = now, capacity = Capacity cfg, quantum = Quantum cfg,
            fillInterval = Interval cfg, availableTokens = Capacity cfg, latestTick = 0\<rparr>"
  have g: "getOrCreate now ident cfg r = Return (nb, r\<lparr>initialized := (initialized r)(ident \<mapsto> nb)\<rparr>)"
    using fresh newBucket_valid [OF valid, of now]
    by (simp add: getOrCreate_def and_then_def nb_def)
  from valid have "fillInterval nb \<noteq> 0" by (auto simp add: nb_def word_sless_alt)
  then have s: "currentTick nb now = Return (latestTick nb)"
    using currentTick_at_start [of nb now] by (simp add: nb_def)
  from valid have a: "0 <=s availableTokens nb"
    by (simp add: nb_def word_sle_eq word_sless_alt)
  note t = Bucket_TakeAvailable_exact [OF s a, of c]
  have get: "db_Get (db r) (Key RateLimitCapacity (prefix r) ident) = (PutUint64 c @ PutUint64 s, None)"
    using rec ok by (simp add: db_Get_def)
  show ?thesis
    using g get t by (simp add: Create_restore_def and_then_def nb_def)
qed

lemma Remove_ban_frame:
  assumes D: "duration \<noteq> 0"
    and rm: "Remove T ident duration r = Return (None, r1)"
  shows "records (db r1) (Key RateLimitBlacklist (prefix r) ident) =
      Some (PutUint64 (Unix (Add T duration))) \<and>
    prefix r1 = prefix r \<and> broken (db r1) = broken (db r) \<and>
    defaultConfig r1 = defaultConfig r \<and> initialized r1 ident = None"
  using assms
  by (auto simp add: Remove_def blacklist_def store_def db_Put_def and_then_def Let_def Key_def
      split: if_splits option.splits result.splits prod.splits)

lemma Create_config_cong:
  assumes "prefix r' = prefix r" "defaultConfig r' = defaultConfig r"
    "broken (db r') = broken (db r)"
    "records (db r') (Key RateLimitConfig (prefix r) ident) =
     records (db r) (Key RateLimitConfig (prefix r) ident)"
    "Create_config ident r = Inr cfg"
  shows "Create_config ident r' = Inr cfg"
  using assms
  by (auto simp add: Create_config_def db_Get_def Let_def split: if_splits option.splits)

lemma Bucket_TakeAvailable_returns:
  "fillInterval b \<noteq> 0 \<Longrightarrow> \<exists>t b1. Bucket_TakeAvailable now n b = Return (t, b1)"
  by (simp add: Bucket_TakeAvailable_def currentTick_def and_then_def Let_def)

lemma Uint64_take8: "length val = 16 \<Longrightarrow> \<exists>c. Uint64 (take 8 val) = Some c"
  by (simp add: Uint64_def)

lemma Create_restore_fresh_returns:
  assumes fresh: "initialized r ident = None"
    and valid: "0 <s Interval cfg" "0 <s Capacity cfg" "0 <s Quantum cfg"
  shows "\<exists>r3. Create_restore now ident cfg r = Return (None, r3) \<and> db r3 = db r"
proof -
  define nb where "nb = \<lparr>startTime = now, capacity = Capacity cfg, quantum = Quantum cfg,
            fillInterval = Interval cfg, availableTokens = Capacity cfg, latestTick = 0\<rparr>"
  define r1 where "r1 = r\<lparr>initialized := (initialized r)(ident \<mapsto> nb)\<rparr>"
  have g: "getOrCreate now ident cfg r = Return (nb, r1)"
    using fresh newBucket_valid [OF valid, of now]
    by (simp add: getOrCreate_def and_then_def nb_def r1_def)
  from valid have fi: "fillInterval nb \<noteq> 0" by (auto simp add: nb_def word_sless_alt)
  obtain val err where get: "db_Get (db r1) (Key RateLimitCapacity (prefix r1) ident) = (val, err)"
    by (cases "db_Get (db r1) (Key RateLimitCapacity (prefix r1) ident)")
  show ?thesis
  proof (cases "err = Some ErrNotFound \<or> length val \<noteq> 16")
    case True
    with g get show ?thesis
      by (auto simp add: Create_restore_def and_then_def r1_def)
  next
    case False
    then have len: "length val = 16" and err: "err \<noteq> Some ErrNotFound" by simp_all
    from Uint64_take8 [OF len] obtain c where c: "Uint64 (take 8 val) = Some c" ..
    from Bucket_TakeAvailable_returns [OF fi, of now c] obtain t b1 where
      t: "Bucket_TakeAvailable now c nb = Return (t, b1)" by blast
    from g get len err c t show ?thesis
      by (simp add: Create_restore_def and_then_def r1_def)
  qed
qed

lemma Unix_le:
  assumes "0 \<le> x" "x \<le> y" "y div 1000000000 < 2 ^ 64"
  shows "Unix x \<le> Unix y"
proof -
  have 1: "0 \<le> x div 1000000000" using assms(1) by (simp add: pos_imp_zdiv_nonneg_iff)
  have 2: "x div 1000000000 \<le> y div 1000000000" using assms(2) by (simp add: zdiv_mono1)
  from 1 2 assms(3) have "uint (word_of_int (x div 1000000000) :: 64 word) = x div 1000000000"
    "uint (word_of_int (y div 1000000000) :: 64 word) = y div 1000000000"
    by (simp_all add: uint_word_of_int take_bit_int_eq_self)
  with 2 show ?thesis by (simp add: Unix_def word_le_def)
qed

lemma rate_2_per_2s: "rate_of 2 2000000000 = Finite 1"
  by code_simp

lemma rate_1_per_1s: "rate_of 1 1000000000 = Finite 1"
  by code_simp

lemma rate_2_per_1s: "rate_of 2 1000000000 = Finite 2"
  by code_simp

text \<open>What a new bucket of capacity \<open>cap\<close> gives out when asked for \<open>c\<close>.\<close>

lemma capped_take:
  fixes cap c :: int64
  assumes "0 <s cap"
  defines "m \<equiv> (if c <=s 0 then 0 else if cap <s c then cap else c)"
  shows "sint (cap - m) = sint cap - sint m"
    and "0 \<le> sint m" and "sint m \<le> sint cap"
    and "0 <=s c \<Longrightarrow> sint m = min (sint c) (sint cap)"
    and "0 <=s c \<Longrightarrow> c <=s cap \<Longrightarrow> m = c"
    and "cap <s c \<Longrightarrow> m = cap"
proof -
  show 1: "0 \<le> sint m" and 2: "sint m \<le> sint cap"
    using assms(1) by (auto simp add: m_def word_sle_eq word_sless_alt)
  from 1 2 show "sint (cap - m) = sint cap - sint m"
    by (rule sint_diff_no_wrap)
  show "sint m = min (sint c) (sint cap)" if "0 <=s c"
    using that assms(1) by (auto simp add: m_def word_sle_eq word_sless_alt)
  show "m = c" if "0 <=s c" "c <=s cap"
  proof (cases "c <=s 0")
    case True
    with that have "sint c = 0" by (simp add: word_sle_eq)
    then have "c = 0" by (simp add: signed_eq_0_iff)
    then show ?thesis by (simp add: m_def)
  next
    case False
    with that show ?thesis by (simp add: m_def word_sle_eq word_sless_alt)
  qed
  show "m = cap" if "cap <s c"
    using that assms(1) by (auto simp add: m_def word_sle_eq word_sless_alt)
qed

subsection \<open>A full bucket left idle\<close>

text \<open>
  With the refill above, a full bucket does not record the ticks that pass while
  it is full: alice's bucket is made at time 0 and first used 100 seconds later;
  the take of 7 leaves \<open>latestTick\<close> at 0, so the take of 5 at the same instant
  first credits 100 ticks, and 5 tokens are available after 12 of 10 were taken.
  The conservation theorem below leaves such a bucket out.
\<close>

lemma full_bucket_idle_credited_after_take:
  "and_then (take_all 100000000000 alice [7, 5] created10) (\<lambda>(ts, r).
     and_then (Available 100000000000 alice r) (\<lambda>(a, r'). Return (ts, a))) =
   Return ([7, 5], 5)"
  by (simp add: TakeAvailable_def Available_def store_def db_Put_def getOrCreate_def
      bucket_eval scenario_eval created10_def Key_def)

section \<open>Claims\<close>




text \<open>
  C2.  The claim: after \<open>Remove(id, D)\<close> at time \<open>T\<close> with \<open>D \<noteq> 0\<close>, \<open>Create(id)\<close> fails
  with BlacklistedError in \<open>[T, T+D)\<close> and succeeds from \<open>T+D\<close> on.  The code compares
  whole Unix seconds with \<open>deadline >= now\<close>, so the ban still holds at \<open>T+D\<close>
  itself: bob, removed at second 1000 for 60 seconds, is still banned at second
  1060.
\<close>

theorem Create_at_deadline_still_banned:
  "Remove 1000000000000 bob 60000000000 limiter0 = Return (None, banned_bob) \<and>
   Add 1000000000000 60000000000 = 1060000000000 \<and>
   Create 1060000000000 bob banned_bob = Return (Some BlacklistedError, banned_bob)"
  by (simp add: Remove_def blacklist_def db_Put_def Create_def Create_blacklist_def db_Get_def
      bucket_eval scenario_eval banned_bob_def Key_def)

text \<open>
  C2, amended.  After a \<open>Remove(id, D)\<close> at time \<open>T\<close> with \<open>D \<noteq> 0\<close> that returned
  nil, on the limiter as that call left it, and on a store whose read of the
  identity's blacklist record does not fail: \<open>Create(id)\<close> at time \<open>t\<close> fails with
  BlacklistedError, changing nothing,
  whenever the Unix second of \<open>t\<close> is at most the Unix second of \<open>T+D\<close> (compared as
  \<open>uint64\<close>); for \<open>T\<close> from the epoch on and a deadline second below \<open>2^64\<close> this is
  every \<open>t\<close> in the closed interval \<open>[T, T+D]\<close>.  Once the Unix second of \<open>t\<close> is
  after that of \<open>T+D\<close>, \<open>Create(id)\<close> deletes the blacklist record and returns nil,
  provided the delete does not fail and the config step yields a config whose
  three fields are positive as \<open>int64\<close> (from 1 to \<open>2^63 - 1\<close>).
\<close>

theorem Create_after_ban:
  assumes D: "duration \<noteq> 0"
    and rm: "Remove T ident duration r = Return (None, r1)"
    and get_ok: "\<not> broken (db r) OpGet (Key RateLimitBlacklist (prefix r) ident)"
  shows "(Unix t \<le> Unix (Add T duration) \<longrightarrow>
            Create t ident r1 = Return (Some BlacklistedError, r1)) \<and>
         (0 \<le> T \<and> T \<le> t \<and> t \<le> Add T duration \<and> Add T duration div 1000000000 < 2 ^ 64 \<longrightarrow>
            Create t ident r1 = Return (Some BlacklistedError, r1)) \<and>
         (Unix (Add T duration) < Unix t \<and>
          \<not> broken (db r) OpDelete (Key RateLimitBlacklist (prefix r) ident) \<and>
          Create_config ident r1 = Inr cfg \<and>
          0 <s Interval cfg \<and> 0 <s Capacity cfg \<and> 0 <s Quantum cfg \<longrightarrow>
            (\<exists>r3. Create t ident r1 = Return (None, r3) \<and>
               records (db r3) (Key RateLimitBlacklist (prefix r) ident) = None))"
proof -
  note f = Remove_ban_frame [OF D rm]
  have get: "db_Get (db r1) (Key RateLimitBlacklist (prefix r1) ident) =
      (PutUint64 (Unix (Add T duration)), None)"
    using f get_ok by (simp add: db_Get_def)
  have banned: "Create t ident r1 = Return (Some BlacklistedError, r1)"
    if "Unix t \<le> Unix (Add T duration)"
    using that get by (simp add: Create_def Create_blacklist_def)
  have window: "Create t ident r1 = Return (Some BlacklistedError, r1)"
    if "0 \<le> T \<and> T \<le> t \<and> t \<le> Add T duration \<and> Add T duration div 1000000000 < 2 ^ 64"
  proof -
    from that have "Unix t \<le> Unix (Add T duration)" by (intro Unix_le) simp_all
    then show ?thesis by (rule banned)
  qed
  have expired: "\<exists>r3. Create t ident r1 = Return (None, r3) \<and>
               records (db r3) (Key RateLimitBlacklist (prefix r) ident) = None"
    if h: "Unix (Add T duration) < Unix t \<and>
          \<not> broken (db r) OpDelete (Key RateLimitBlacklist (prefix r) ident) \<and>
          Create_config ident r1 = Inr cfg \<and>
          0 <s Interval cfg \<and> 0 <s Capacity cfg \<and> 0 <s Quantum cfg"
  proof -
    define r2 where "r2 = r1\<lparr>db := (db r1)\<lparr>records :=
        (records (db r1))(Key RateLimitBlacklist (prefix r) ident := None)\<rparr>\<rparr>"
    from h have "Unix (Add T duration) < Unix t" by (rule conjunct1)
    then have late: "\<not> Unix t \<le> Unix (Add T duration)" by simp
    have b: "Create_blacklist t ident r1 = Inr r2"
      using get late h f by (simp add: Create_blacklist_def db_Delete_def r2_def)
    have c: "Create_config ident r2 = Inr cfg"
      using h f by (intro Create_config_cong [of r2 r1]) (simp_all add: r2_def Key_def)
    have fresh: "initialized r2 ident = None" using f by (simp add: r2_def)
    from h have valid: "0 <s Interval cfg" "0 <s Capacity cfg" "0 <s Quantum cfg" by simp_all
    from Create_restore_fresh_returns [OF fresh valid, of t] obtain r3 where
      r3: "Create_restore t ident cfg r2 = Return (None, r3)" "db r3 = db r2" by blast
    have "Create t ident r1 = Return (None, r3)"
      using b c r3 by (simp add: Create_def)
    moreover have "records (db r3) (Key RateLimitBlacklist (prefix r) ident) = None"
      using r3 by (simp add: r2_def)
    ultimately show ?thesis by blast
  qed
  from banned window expired show ?thesis by blast
qed

theorem Create_after_ban_witness:
  "(60000000000 :: int64) \<noteq> 0 \<and>
   Remove 1000000000000 bob 60000000000 limiter0 = Return (None, banned_bob) \<and>
   Unix 1060000000000 \<le> Unix (Add 1000000000000 60000000000) \<and>
   (1000000000000 :: int) \<le> 1060000000000 \<and>
   1060000000000 \<le> Add 1000000000000 60000000000 \<and>
   Create 1060000000000 bob banned_bob = Return (Some BlacklistedError, banned_bob) \<and>
   Unix (Add 1000000000000 60000000000) < Unix 1061000000000 \<and>
   Create_config bob banned_bob = Inr config10 \<and>
   (\<exists>r3. Create 1061000000000 bob banned_bob = Return (None, r3) \<and>
      records (db r3) (Key RateLimitBlacklist (prefix limiter0) bob) = None)"
proof -
  have D: "(60000000000 :: int64) \<noteq> 0" by simp
  have rm: "Remove 1000000000000 bob 60000000000 limiter0 = Return (None, banned_bob)"
    by (simp add: Remove_def blacklist_def db_Put_def bucket_eval scenario_eval banned_bob_def)
  have ok: "\<not> broken (db limiter0) OpGet (Key RateLimitBlacklist (prefix limiter0) bob)"
    "\<not> broken (db limiter0) OpDelete (Key RateLimitBlacklist (prefix limiter0) bob)"
    by (simp_all add: scenario_eval)
  have t: "Unix 1060000000000 \<le> Unix (Add 1000000000000 60000000000)"
    "Unix (Add 1000000000000 60000000000) < Unix 1061000000000"
    "Add 1000000000000 60000000000 = 1060000000000"
    by (simp_all add: Unix_def Add_def)
  have c: "Create_config bob banned_bob = Inr config10"
    by (simp add: Create_config_def db_Get_def banned_bob_def limiter0_def NewPersisted_def
        healthy_db_def Key_def)
  have v: "0 <s Interval config10" "0 <s Capacity config10" "0 <s Quantum config10"
    by (simp_all add: config10_def word_sless_alt)
  from Create_after_ban [OF D rm ok(1), of 1060000000000 config10]
       Create_after_ban [OF D rm ok(1), of 1061000000000 config10]
       D rm ok t c v
  show ?thesis by simp
qed

text \<open>
  C3.  The claim: after \<open>Remove(id, 0)\<close> stored the consumed amount, a later
  \<open>Create(id)\<close> restores the bucket to the capacity minus that amount.  The new
  bucket cannot give out more than its capacity, and \<open>Create\<close> may build it from
  another config than the removed bucket had: alice's bucket is replaced by one of
  capacity 20 with \<open>UpdateConfig\<close> (which stores no override), she takes 14 and is
  removed; \<open>Create\<close> then builds a bucket of the default capacity 10 and leaves 0
  tokens available, which is neither 10 - 14 nor 20 - 14.
\<close>

theorem Remove_Create_larger_consumed_leaves_nothing:
  "Available 0 alice limiter0 = Return (10, created10) \<and>
   UpdateConfig 0 alice config20 created10 = Return (None, created20) \<and>
   TakeAvailable 0 alice 14 created20 = Return (14, took14) \<and>
   Remove 0 alice 0 took14 = Return (None, removed14) \<and>
   records (db removed14) (Key RateLimitCapacity [] alice) = Some (PutUint64 14 @ PutUint64 0) \<and>
   Create 100000000000 alice removed14 = Return (None, restored14) \<and>
   Available 100000000000 alice restored14 = Return (0, restored14) \<and>
   sint (0 :: int64) \<noteq> sint (Capacity config10) - sint (14 :: int64) \<and>
   sint (0 :: int64) \<noteq> sint (Capacity config20) - sint (14 :: int64)"
  by (simp add: Create_def Create_blacklist_def Create_config_def Create_restore_def
      UpdateConfig_def compare_def Remove_def TakeAvailable_def Available_def store_def
      db_Get_def db_Put_def getOrCreate_def bucket_eval scenario_eval created10_def
      created20_def took14_def removed14_def restored14_def bucket20_def config20_def Key_def)

text \<open>
  C3, amended.  Let an identity have a bucket in memory whose tokens read at \<open>t0\<close>
  are \<open>avail\<close>, and let the write of its snapshot not fail.  Then \<open>Remove(id, 0)\<close>
  at \<open>t0\<close> returns nil and stores 16 bytes: the consumed amount
  \<open>c = capacity - avail\<close> as a big-endian \<open>uint64\<close> (between 0 and the capacity when
  \<open>avail\<close> is), then the Unix second of \<open>t0\<close>.  A \<open>Create(id)\<close> at any time \<open>t1\<close>
  whose blacklist and config steps pass, with a config whose three fields are
  positive as \<open>int64\<close> and a snapshot read that does not fail, returns nil, and
  the tokens available at \<open>t1\<close> are that config's capacity minus the smaller of
  \<open>c\<close> and that capacity (minus nothing when \<open>c\<close>, as an \<open>int64\<close>, is not
  positive), whatever time passed: exactly the capacity minus \<open>c\<close> when \<open>c\<close> is
  from 0 to that capacity, and 0 when \<open>c\<close> is above it.
\<close>

theorem Remove_Create_restores_without_refill:
  assumes i: "initialized r ident = Some b"
    and a: "Bucket_Available t0 b = Return (avail, b')"
    and put_ok: "\<not> broken (db r) OpPut (Key RateLimitCapacity (prefix r) ident)"
  shows "\<exists>r1. Remove t0 ident 0 r = Return (None, r1) \<and>
      records (db r1) (Key RateLimitCapacity (prefix r) ident) =
        Some (PutUint64 (capacity b - avail) @ PutUint64 (Unix t0)) \<and>
      length (PutUint64 (capacity b - avail) @ PutUint64 (Unix t0)) = 16 \<and>
      Uint64 (take 8 (PutUint64 (capacity b - avail) @ PutUint64 (Unix t0))) =
        Some (capacity b - avail) \<and>
      Uint64 (drop 8 (PutUint64 (capacity b - avail) @ PutUint64 (Unix t0))) = Some (Unix t0) \<and>
      (0 <=s avail \<and> avail <=s capacity b \<longrightarrow>
         sint (capacity b - avail) = sint (capacity b) - sint avail \<and>
         0 <=s capacity b - avail \<and> capacity b - avail <=s capacity b) \<and>
      (Create_blacklist t1 ident r1 = Inr r2 \<and> Create_config ident r2 = Inr cfg \<and>
       0 <s Interval cfg \<and> 0 <s Capacity cfg \<and> 0 <s Quantum cfg \<and>
       \<not> broken (db r) OpGet (Key RateLimitCapacity (prefix r) ident) \<longrightarrow>
       (\<exists>r3 r4 a'. Create t1 ident r1 = Return (None, r3) \<and>
          Available t1 ident r3 = Return (a', r4) \<and>
          a' = Capacity cfg -
                 (if capacity b - avail <=s 0 then 0
                  else if Capacity cfg <s capacity b - avail then Capacity cfg
                  else capacity b - avail) \<and>
          (0 <=s capacity b - avail \<and> capacity b - avail <=s Capacity cfg \<longrightarrow>
             sint a' = sint (Capacity cfg) - sint (capacity b - avail)) \<and>
          (Capacity cfg <s capacity b - avail \<longrightarrow> a' = 0) \<and>
          (capacity b - avail <=s 0 \<longrightarrow> a' = Capacity cfg)))"
proof -
  define c where "c = capacity b - avail"
  define r1 where "r1 = r\<lparr>db := (db r)\<lparr>records := (records (db r))
                (Key RateLimitCapacity (prefix r) ident \<mapsto>
                   PutUint64 c @ PutUint64 (Unix t0))\<rparr>,
              initialized := (initialized r)(ident := None)\<rparr>"
  have rm: "Remove t0 ident 0 r = Return (None, r1)"
    using Remove_zero [OF i a put_ok] by (simp add: r1_def c_def)
  have rec: "records (db r1) (Key RateLimitCapacity (prefix r) ident) =
        Some (PutUint64 c @ PutUint64 (Unix t0))"
    by (simp add: r1_def)
  have sc: "sint c = sint (capacity b) - sint avail \<and> 0 <=s c \<and> c <=s capacity b"
    if inv: "0 <=s avail \<and> avail <=s capacity b"
  proof -
    have "sint c = sint (capacity b) - sint avail"
      unfolding c_def using inv by (intro sint_diff_no_wrap) (simp_all add: word_sle_eq)
    with inv show ?thesis by (simp add: word_sle_eq)
  qed
  have restore: "\<exists>r3 r4 a'. Create t1 ident r1 = Return (None, r3) \<and>
          Available t1 ident r3 = Return (a', r4) \<and>
          a' = Capacity cfg - (if c <=s 0 then 0 else if Capacity cfg <s c then Capacity cfg else c) \<and>
          (0 <=s c \<and> c <=s Capacity cfg \<longrightarrow> sint a' = sint (Capacity cfg) - sint c) \<and>
          (Capacity cfg <s c \<longrightarrow> a' = 0) \<and>
          (c <=s 0 \<longrightarrow> a' = Capacity cfg)"
    if h: "Create_blacklist t1 ident r1 = Inr r2 \<and> Create_config ident r2 = Inr cfg \<and>
       0 <s Interval cfg \<and> 0 <s Capacity cfg \<and> 0 <s Quantum cfg \<and>
       \<not> broken (db r) OpGet (Key RateLimitCapacity (prefix r) ident)"
  proof -
    from h have b2: "Create_blacklist t1 ident r1 = Inr r2"
      and cf: "Create_config ident r2 = Inr cfg"
      and valid: "0 <s Interval cfg" "0 <s Capacity cfg" "0 <s Quantum cfg"
      and get_ok: "\<not> broken (db r) OpGet (Key RateLimitCapacity (prefix r) ident)"
      by simp_all
    note f = Create_blacklist_frame [OF b2, of "prefix r" ident]
    have fresh: "initialized r2 ident = None" using f by (simp add: r1_def)
    have rec2: "records (db r2) (Key RateLimitCapacity (prefix r2) ident) =
        Some (PutUint64 c @ PutUint64 (Unix t0))"
      using f rec by (simp add: r1_def)
    have ok2: "\<not> broken (db r2) OpGet (Key RateLimitCapacity (prefix r2) ident)"
      using f get_ok by (simp add: r1_def)
    define m where "m = (if c <=s 0 then 0 else if Capacity cfg <s c then Capacity cfg else c)"
    define nb where "nb = \<lparr>startTime = t1, capacity = Capacity cfg, quantum = Quantum cfg,
        fillInterval = Interval cfg, availableTokens = Capacity cfg - m, latestTick = 0\<rparr>"
    define r3 where "r3 = r2\<lparr>initialized := (initialized r2)(ident \<mapsto> nb)\<rparr>"
    have "Create t1 ident r1 = Create_restore t1 ident cfg r2"
      using b2 cf by (simp add: Create_def)
    also have "\<dots> = Return (None, r3)"
      using Create_restore_snapshot [OF fresh valid rec2 ok2, of t1]
      by (simp add: r3_def nb_def m_def)
    finally have cr: "Create t1 ident r1 = Return (None, r3)" .
    from valid have "fillInterval nb \<noteq> 0" by (auto simp add: nb_def word_sless_alt)
    then have "currentTick nb t1 = Return (latestTick nb)"
      using currentTick_at_start [of nb t1] by (simp add: nb_def)
    then have "Bucket_Available t1 nb = Return (Capacity cfg - m, nb)"
      using Bucket_Available_settled [of nb t1] by (simp add: nb_def)
    then have av: "Available t1 ident r3 =
        Return (Capacity cfg - m, r3\<lparr>initialized := (initialized r3)(ident \<mapsto> nb)\<rparr>)"
      by (intro Available_registered) (simp_all add: r3_def)
    note ct = capped_take [OF valid(2), of c, folded m_def]
    have 1: "sint (Capacity cfg - m) = sint (Capacity cfg) - sint c"
      if "0 <=s c \<and> c <=s Capacity cfg"
      using ct(1) ct(5) that by simp
    have 2: "Capacity cfg - m = 0" if "Capacity cfg <s c"
      using ct(6) that by simp
    have 3: "Capacity cfg - m = Capacity cfg" if "c <=s 0"
      using that by (simp add: m_def)
    from cr av 1 2 3 show ?thesis unfolding m_def by blast
  qed
  show ?thesis
    using rm rec sc restore by (auto simp add: c_def)
qed

theorem Remove_Create_restores_without_refill_witness:
  "initialized took7 alice = Some (bucket10 3) \<and>
   Bucket_Available 0 (bucket10 3) = Return (3, bucket10 3) \<and>
   Remove 0 alice 0 took7 = Return (None, removed7) \<and>
   Create_blacklist 100000000000 alice removed7 = Inr removed7 \<and>
   Create_config alice removed7 = Inr config10 \<and>
   (0 :: int64) <=s capacity (bucket10 3) - 3 \<and> capacity (bucket10 3) - 3 <=s Capacity config10 \<and>
   (\<exists>r3 r4. Create 100000000000 alice removed7 = Return (None, r3) \<and>
      Available 100000000000 alice r3 = Return (3, r4)) \<and>
   initialized took14 alice = Some (bucket20 6) \<and>
   Bucket_Available 0 (bucket20 6) = Return (6, bucket20 6) \<and>
   Remove 0 alice 0 took14 = Return (None, removed14) \<and>
   Create_blacklist 100000000000 alice removed14 = Inr removed14 \<and>
   Create_config alice removed14 = Inr config10 \<and>
   Capacity config10 <s capacity (bucket20 6) - 6 \<and>
   (\<exists>r3 r4. Create 100000000000 alice removed14 = Return (None, r3) \<and>
      Available 100000000000 alice r3 = Return (0, r4))"
proof -
  have i: "initialized took7 alice = Some (bucket10 3)"
    by (simp add: took7_def scenario_eval)
  have a: "Bucket_Available 0 (bucket10 3) = Return (3, bucket10 3)"
    by (simp add: bucket_eval bucket10_def)
  have ok: "\<not> broken (db took7) OpPut (Key RateLimitCapacity (prefix took7) alice)"
    "\<not> broken (db took7) OpGet (Key RateLimitCapacity (prefix took7) alice)"
    by (simp_all add: took7_def scenario_eval)
  have rm: "Remove 0 alice 0 took7 = Return (None, removed7)"
    by (simp add: Remove_def store_def db_Put_def bucket_eval scenario_eval took7_def removed7_def)
  have b: "Create_blacklist 100000000000 alice removed7 = Inr removed7"
    by (simp add: Create_blacklist_def db_Get_def removed7_def scenario_eval Key_def)
  have c: "Create_config alice removed7 = Inr config10"
    by (simp add: Create_config_def db_Get_def removed7_def limiter0_def NewPersisted_def
        healthy_db_def Key_def)
  have v: "0 <s Interval config10" "0 <s Capacity config10" "0 <s Quantum config10"
    by (simp_all add: config10_def word_sless_alt)
  have c7: "(0 :: int64) <=s capacity (bucket10 3) - 3"
    "capacity (bucket10 3) - 3 <=s Capacity config10"
    by (simp_all add: config10_def bucket10_def word_sle_eq)
  from Remove_Create_restores_without_refill
         [OF i a ok(1), of 100000000000 removed7 config10] rm b c v ok(2) c7
  have 1: "\<exists>r3 r4. Create 100000000000 alice removed7 = Return (None, r3) \<and>
      Available 100000000000 alice r3 = Return (3, r4)"
    by (auto simp add: config10_def bucket10_def)
  have i': "initialized took14 alice = Some (bucket20 6)"
    by (simp add: took14_def scenario_eval)
  have a': "Bucket_Available 0 (bucket20 6) = Return (6, bucket20 6)"
    by (simp add: bucket_eval bucket20_def)
  have ok': "\<not> broken (db took14) OpPut (Key RateLimitCapacity (prefix took14) alice)"
    "\<not> broken (db took14) OpGet (Key RateLimitCapacity (prefix took14) alice)"
    by (simp_all add: took14_def scenario_eval)
  have rm': "Remove 0 alice 0 took14 = Return (None, removed14)"
    by (simp add: Remove_def store_def db_Put_def bucket_eval scenario_eval took14_def
        removed14_def bucket20_def)
  have b': "Create_blacklist 100000000000 alice removed14 = Inr removed14"
    by (simp add: Create_blacklist_def db_Get_def removed14_def scenario_eval Key_def)
  have c': "Create_config alice removed14 = Inr config10"
    by (simp add: Create_config_def db_Get_def removed14_def limiter0_def NewPersisted_def
        healthy_db_def Key_def)
  have c14: "Capacity config10 <s capacity (bucket20 6) - 6"
    by (simp add: config10_def bucket20_def word_sless_alt)
  from Remove_Create_restores_without_refill
         [OF i' a' ok'(1), of 100000000000 removed14 config10] rm' b' c' v ok'(2) c14
  have 2: "\<exists>r3 r4. Create 100000000000 alice removed14 = Return (None, r3) \<and>
      Available 100000000000 alice r3 = Return (0, r4)"
    by auto
  from i a rm b c c7 1 i' a' rm' b' c' c14 2 show ?thesis by simp
qed

text \<open>
  C4.  The claim: \<open>UpdateConfig\<close> with a config that is not equivalent gives a new
  bucket that has consumed what the old one had.  The new bucket cannot give out
  more than its capacity: alice has consumed 7 of 10 tokens, and after
  \<open>UpdateConfig\<close> with capacity 5 her new bucket has consumed 5.
\<close>

theorem UpdateConfig_smaller_capacity_loses_consumed:
  "initialized took7 alice = Some (bucket10 3) \<and>
   Bucket_Available 0 (bucket10 3) = Return (3, bucket10 3) \<and>
   capacity (bucket10 3) - 3 = 7 \<and>
   compare config5 (Some (bucket10 3)) = Return False \<and>
   UpdateConfig 0 alice config5 took7 =
     Return (None, took7\<lparr>initialized := [alice \<mapsto> bucket5 0]\<rparr>) \<and>
   capacity (bucket5 0) - availableTokens (bucket5 0) = 5 \<and>
   capacity (bucket5 0) - availableTokens (bucket5 0) \<noteq> capacity (bucket10 3) - 3"
  by (simp add: UpdateConfig_def compare_def getOrCreate_def bucket_eval scenario_eval
      took7_def config5_def bucket5_def)

text \<open>
  C4, amended.  For an identity with a bucket in memory, \<open>compare\<close> says whether the
  config's capacity is the bucket's and the config's rate
  \<open>1e9 * float64(Quantum) / float64(Interval)\<close> equals the bucket's rate as a
  \<open>float64\<close>.  When it says yes, \<open>UpdateConfig\<close> returns nil and leaves the limiter
  as it was.  When it says no, and the config's three fields are positive as
  \<open>int64\<close> (from 1 to \<open>2^63 - 1\<close>), and the old bucket's tokens can be read at
  \<open>now\<close>, \<open>UpdateConfig\<close> returns nil and registers the bucket that the new config
  gives at \<open>now\<close> (its capacity, quantum and fill interval), from which the
  consumed amount \<open>c\<close> of the old bucket was taken: it has consumed the smaller of
  \<open>c\<close> and the new capacity when \<open>c \<ge> 0\<close>, and nothing when \<open>c\<close> is not positive.
\<close>

theorem UpdateConfig_keeps_consumed_up_to_capacity:
  assumes i: "initialized r ident = Some old"
  shows "compare config (Some old) =
           Return (Capacity config = capacity old \<and>
                   float_eq (rate_of (uint (Quantum config)) (uint (Interval config)))
                            (rate_of (sint (quantum old)) (sint (fillInterval old)))) \<and>
         (compare config (Some old) = Return True \<longrightarrow>
           UpdateConfig now ident config r = Return (None, r)) \<and>
         (compare config (Some old) = Return False \<and>
          0 <s Interval config \<and> 0 <s Capacity config \<and> 0 <s Quantum config \<and>
          Bucket_Available now old = Return (avail, old') \<longrightarrow>
          (\<exists>a'. UpdateConfig now ident config r =
                   Return (None, r\<lparr>initialized := (initialized r)(ident \<mapsto>
                     \<lparr>startTime = now, capacity = Capacity config, quantum = Quantum config,
                      fillInterval = Interval config, availableTokens = a',
                      latestTick = 0\<rparr>)\<rparr>) \<and>
                a' = Capacity config -
                       (if capacity old - avail <=s 0 then 0
                        else if Capacity config <s capacity old - avail then Capacity config
                        else capacity old - avail) \<and>
                (0 <=s capacity old - avail \<longrightarrow>
                   sint (Capacity config) - sint a' =
                     min (sint (capacity old - avail)) (sint (Capacity config))) \<and>
                (capacity old - avail <=s 0 \<longrightarrow> a' = Capacity config)))"
proof (intro conjI impI)
  show "compare config (Some old) =
           Return (Capacity config = capacity old \<and>
                   float_eq (rate_of (uint (Quantum config)) (uint (Interval config)))
                            (rate_of (sint (quantum old)) (sint (fillInterval old))))"
    by (simp add: compare_def Bucket_Capacity_def Bucket_Rate_def)
next
  assume "compare config (Some old) = Return True"
  with i show "UpdateConfig now ident config r = Return (None, r)"
    by (simp add: UpdateConfig_def and_then_def)
next
  assume h: "compare config (Some old) = Return False \<and>
          0 <s Interval config \<and> 0 <s Capacity config \<and> 0 <s Quantum config \<and>
          Bucket_Available now old = Return (avail, old')"
  then have cmp: "compare config (Some old) = Return False"
    and valid: "0 <s Interval config" "0 <s Capacity config" "0 <s Quantum config"
    and a: "Bucket_Available now old = Return (avail, old')"
    by simp_all
  define c where "c = capacity old - avail"
  define m where "m = (if c <=s 0 then 0 else if Capacity config <s c then Capacity config else c)"
  define new where "new = \<lparr>startTime = now, capacity = Capacity config, quantum = Quantum config,
            fillInterval = Interval config, availableTokens = Capacity config, latestTick = 0\<rparr>"
  define r1 where "r1 = r\<lparr>initialized := (initialized r)(ident := None)\<rparr>"
  have g: "getOrCreate now ident config r1 =
      Return (new, r1\<lparr>initialized := (initialized r1)(ident \<mapsto> new)\<rparr>)"
    using newBucket_valid [OF valid, of now]
    by (simp add: getOrCreate_def and_then_def new_def r1_def)
  from valid have "fillInterval new \<noteq> 0" by (auto simp add: new_def word_sless_alt)
  then have s: "currentTick new now = Return (latestTick new)"
    using currentTick_at_start [of new now] by (simp add: new_def)
  from valid have an: "0 <=s availableTokens new"
    by (simp add: new_def word_sle_eq word_sless_alt)
  have t: "Bucket_TakeAvailable now c new =
      Return (m, new\<lparr>availableTokens := Capacity config - m\<rparr>)"
    using Bucket_TakeAvailable_exact [OF s an, of c] by (simp add: m_def new_def)
  have u: "UpdateConfig now ident config r =
      Return (None, r\<lparr>initialized := (initialized r)(ident \<mapsto>
         \<lparr>startTime = now, capacity = Capacity config, quantum = Quantum config,
          fillInterval = Interval config, availableTokens = Capacity config - m,
          latestTick = 0\<rparr>)\<rparr>)"
    using i cmp a g t
    by (simp add: UpdateConfig_def and_then_def Bucket_Capacity_def c_def r1_def new_def)
  note ct = capped_take [OF valid(2), of c, folded m_def]
  have 1: "sint (Capacity config) - sint (Capacity config - m) = min (sint c) (sint (Capacity config))"
    if "0 <=s c"
    using ct(1) ct(4) that by simp
  have 2: "Capacity config - m = Capacity config" if "c <=s 0"
    using that by (simp add: m_def)
  from u 1 2
  show "\<exists>a'. UpdateConfig now ident config r =
                   Return (None, r\<lparr>initialized := (initialized r)(ident \<mapsto>
                     \<lparr>startTime = now, capacity = Capacity config, quantum = Quantum config,
                      fillInterval = Interval config, availableTokens = a',
                      latestTick = 0\<rparr>)\<rparr>) \<and>
                a' = Capacity config -
                       (if capacity old - avail <=s 0 then 0
                        else if Capacity config <s capacity old - avail then Capacity config
                        else capacity old - avail) \<and>
                (0 <=s capacity old - avail \<longrightarrow>
                   sint (Capacity config) - sint a' =
                     min (sint (capacity old - avail)) (sint (Capacity config))) \<and>
                (capacity old - avail <=s 0 \<longrightarrow> a' = Capacity config)"
    unfolding m_def c_def by blast
qed

theorem UpdateConfig_keeps_consumed_up_to_capacity_witness:
  "initialized took7 alice = Some (bucket10 3) \<and>
   Bucket_Available 0 (bucket10 3) = Return (3, bucket10 3) \<and>
   (0 :: int64) <=s capacity (bucket10 3) - 3 \<and>
   compare config_2_per_2s (Some (bucket10 3)) = Return True \<and>
   UpdateConfig 0 alice config_2_per_2s took7 = Return (None, took7) \<and>
   compare config20 (Some (bucket10 3)) = Return False \<and>
   UpdateConfig 0 alice config20 took7 =
     Return (None, took7\<lparr>initialized := [alice \<mapsto> bucket20 13]\<rparr>) \<and>
   compare config10_double (Some (bucket10 3)) = Return False \<and>
   UpdateConfig 0 alice config10_double took7 =
     Return (None, took7\<lparr>initialized :=
       [alice \<mapsto> \<lparr>startTime = 0, capacity = 10, quantum = 2, fillInterval = 1000000000,
                  availableTokens = 3, latestTick = 0\<rparr>]\<rparr>)"
proof -
  have i: "initialized took7 alice = Some (bucket10 3)"
    by (simp add: took7_def scenario_eval)
  have a: "Bucket_Available 0 (bucket10 3) = Return (3, bucket10 3)"
    by (simp add: bucket_eval bucket10_def)
  have c0: "(0 :: int64) <=s capacity (bucket10 3) - 3"
    by (simp add: bucket10_def word_sle_eq)
  have same: "compare config_2_per_2s (Some (bucket10 3)) = Return True"
    using UpdateConfig_keeps_consumed_up_to_capacity [OF i, of config_2_per_2s]
    by (simp add: config_2_per_2s_def bucket10_def float_eq_def rate_2_per_2s rate_1_per_1s)
  have differs: "compare config20 (Some (bucket10 3)) = Return False"
    using UpdateConfig_keeps_consumed_up_to_capacity [OF i, of config20]
    by (simp add: config20_def bucket10_def)
  have faster: "compare config10_double (Some (bucket10 3)) = Return False"
    using UpdateConfig_keeps_consumed_up_to_capacity [OF i, of config10_double]
    by (simp add: config10_double_def bucket10_def float_eq_def rate_2_per_1s rate_1_per_1s)
  have v: "0 <s Interval config20" "0 <s Capacity config20" "0 <s Quantum config20"
    "0 <s Interval config10_double" "0 <s Capacity config10_double" "0 <s Quantum config10_double"
    by (simp_all add: config20_def config10_double_def word_sless_alt)
  from UpdateConfig_keeps_consumed_up_to_capacity [OF i, of config_2_per_2s 0] same
  have 1: "UpdateConfig 0 alice config_2_per_2s took7 = Return (None, took7)" by simp
  from UpdateConfig_keeps_consumed_up_to_capacity [OF i, of config20 0 3 "bucket10 3"] differs a v
  have 2: "UpdateConfig 0 alice config20 took7 =
     Return (None, took7\<lparr>initialized := [alice \<mapsto> bucket20 13]\<rparr>)"
    by (simp add: bucket10_def bucket20_def config20_def took7_def word_sle_eq word_sless_alt)
  from UpdateConfig_keeps_consumed_up_to_capacity [OF i, of config10_double 0 3 "bucket10 3"]
    faster a v
  have 3: "UpdateConfig 0 alice config10_double took7 =
     Return (None, took7\<lparr>initialized :=
       [alice \<mapsto> \<lparr>startTime = 0, capacity = 10, quantum = 2, fillInterval = 1000000000,
                  availableTokens = 3, latestTick = 0\<rparr>]\<rparr>)"
    by (simp add: bucket10_def config10_double_def took7_def word_sle_eq word_sless_alt)
  from i a c0 same differs faster 1 2 3 show ?thesis by simp
qed

text \<open>
  C5.  Fail-open on a malformed snapshot.  When the blacklist and config steps
  of \<open>Create\<close> pass and the bucket is there, a stored capacity snapshot whose
  length is not 16 makes \<open>Create\<close> return nil: the length is logged, and the
  bucket is the one \<open>getOrCreate\<close> returned, untouched; for an identity that had no
  bucket it is a new bucket with all its tokens.
\<close>

theorem Create_malformed_snapshot_fails_open:
  assumes b: "Create_blacklist now ident r = Inr r1"
    and c: "Create_config ident r1 = Inr cfg"
    and g: "getOrCreate now ident cfg r1 = Return (bucket, r2)"
    and rec: "records (db r) (Key RateLimitCapacity (prefix r) ident) = Some val"
    and ok: "\<not> broken (db r) OpGet (Key RateLimitCapacity (prefix r) ident)"
    and len: "length val \<noteq> 16"
  shows "Create now ident r =
      Return (None, r2\<lparr>logged := logged r @ [UnexpectedLength (length val)]\<rparr>) \<and>
    initialized r2 = (initialized r)(ident \<mapsto> bucket) \<and>
    (initialized r ident = None \<longrightarrow>
       availableTokens bucket = Capacity cfg \<and> capacity bucket = Capacity cfg)"
proof -
  note f1 = Create_blacklist_frame [OF b]
  note f2 = getOrCreate_frame [OF g]
  from f1 f2 rec ok have get: "db_Get (db r2) (Key RateLimitCapacity (prefix r2) ident) = (val, None)"
    by (simp add: db_Get_def)
  have "Create now ident r = Create_restore now ident cfg r1"
    using b c by (simp add: Create_def)
  also have "\<dots> = Return (None, r2\<lparr>logged := logged r @ [UnexpectedLength (length val)]\<rparr>)"
    using g get len f1 f2 by (simp add: Create_restore_def and_then_def)
  finally have 1: "Create now ident r =
      Return (None, r2\<lparr>logged := logged r @ [UnexpectedLength (length val)]\<rparr>)" .
  have 2: "initialized r2 = (initialized r)(ident \<mapsto> bucket)" using f1 f2 by simp
  have 3: "initialized r ident = None \<longrightarrow>
       availableTokens bucket = Capacity cfg \<and> capacity bucket = Capacity cfg"
    using g f1
    by (auto simp add: getOrCreate_def newBucket_def NewBucketWithQuantum_def and_then_def
        split: if_splits)
  from 1 2 3 show ?thesis by blast
qed

theorem Create_malformed_snapshot_fails_open_witness:
  "Create_blacklist 0 alice malformed_alice = Inr malformed_alice \<and>
   Create_config alice malformed_alice = Inr config10 \<and>
   getOrCreate 0 alice config10 malformed_alice =
     Return (bucket10 10, malformed_alice\<lparr>initialized := [alice \<mapsto> bucket10 10]\<rparr>) \<and>
   records (db malformed_alice) (Key RateLimitCapacity (prefix malformed_alice) alice) =
     Some [0, 0, 0, 7] \<and>
   initialized malformed_alice alice = None \<and>
   Create 0 alice malformed_alice =
     Return (None, malformed_alice\<lparr>initialized := [alice \<mapsto> bucket10 10],
                                    logged := [UnexpectedLength 4]\<rparr>) \<and>
   availableTokens (bucket10 10) = Capacity config10"
proof -
  have b: "Create_blacklist 0 alice malformed_alice = Inr malformed_alice"
    by (simp add: Create_blacklist_def db_Get_def malformed_alice_def scenario_eval Key_def)
  have c: "Create_config alice malformed_alice = Inr config10"
    by (simp add: Create_config_def db_Get_def malformed_alice_def limiter0_def NewPersisted_def
        healthy_db_def Key_def)
  have g: "getOrCreate 0 alice config10 malformed_alice =
     Return (bucket10 10, malformed_alice\<lparr>initialized := [alice \<mapsto> bucket10 10]\<rparr>)"
    by (simp add: getOrCreate_def malformed_alice_def bucket_eval scenario_eval)
  have rec: "records (db malformed_alice) (Key RateLimitCapacity (prefix malformed_alice) alice) =
     Some [0, 0, 0, 7]"
    by (simp add: malformed_alice_def scenario_eval)
  have ok: "\<not> broken (db malformed_alice) OpGet (Key RateLimitCapacity (prefix malformed_alice) alice)"
    by (simp add: malformed_alice_def scenario_eval)
  have i: "initialized malformed_alice alice = None"
    by (simp add: malformed_alice_def scenario_eval)
  from Create_malformed_snapshot_fails_open [OF b c g rec ok] b c g rec i show ?thesis
    by (simp add: malformed_alice_def scenario_eval)
qed

text \<open>
  C6.  The claim: when the read of the capacity snapshot fails with an I/O error,
  \<open>Create\<close> returns a PersistenceError.  The code does not: the failed read comes
  with a nil value, whose length 0 is not 16, so \<open>Create\<close> logs "unexpected
  length" and returns nil.  Here the read of alice's snapshot fails in an otherwise
  empty store; \<open>Create\<close> returns no error and leaves her new bucket full.
\<close>

theorem Create_capacity_read_error_not_surfaced:
  "Create 0 alice (NewPersisted capacity_read_fails config10 []) =
     Return (None, (NewPersisted capacity_read_fails config10 [])
       \<lparr>initialized := [alice \<mapsto> \<lparr>startTime = 0, capacity = 10, quantum = 1,
            fillInterval = 1000000000, availableTokens = 10, latestTick = 0\<rparr>],
        logged := [UnexpectedLength 0]\<rparr>)"
  by (simp add: Create_def Create_blacklist_def Create_config_def Create_restore_def
      getOrCreate_def newBucket_def NewBucketWithQuantum_def and_then_def db_Get_def
      NewPersisted_def capacity_read_fails_def healthy_db_def config10_def Key_def alice_def
      word_sle_eq)

text \<open>
  C7.  When \<open>Create\<close> fails with BlacklistedError, the limiter it returns is the
  limiter it was given: no bucket was registered and no record of the store was
  touched.  The error is returned only when a blacklist record was read whose
  deadline is not before the current Unix second.
\<close>

theorem Create_blacklisted_changes_nothing:
  assumes "Create now ident r = Return (Some BlacklistedError, r')"
  shows "r' = r \<and>
    (\<exists>val deadline. records (db r) (Key RateLimitBlacklist (prefix r) ident) = Some val \<and>
        Uint64 val = Some deadline \<and> Unix now \<le> deadline)"
proof (cases "Create_blacklist now ident r")
  case (Inl res)
  with assms have res: "res = Return (Some BlacklistedError, r')"
    by (simp add: Create_def)
  from Inl show ?thesis unfolding res
    by (auto simp add: Create_blacklist_def db_Get_def Let_def Uint64_def
        split: if_splits option.splits)
next
  case (Inr r1)
  show ?thesis
  proof (cases "Create_config ident r1")
    case (Inl res)
    with Inr assms have "res = Return (Some BlacklistedError, r')"
      by (simp add: Create_def)
    with Create_config_Inl [OF Inl] show ?thesis by simp
  next
    case (Inr cfg)
    with \<open>Create_blacklist now ident r = Inr r1\<close> assms
    have "Create_restore now ident cfg r1 = Return (Some BlacklistedError, r')"
      by (simp add: Create_def)
    from Create_restore_no_error [OF this] show ?thesis by simp
  qed
qed

theorem Create_blacklisted_changes_nothing_witness:
  "Create 1030000000000 bob banned_bob = Return (Some BlacklistedError, banned_bob) \<and>
   (\<exists>val deadline. records (db banned_bob) (Key RateLimitBlacklist (prefix banned_bob) bob) = Some val \<and>
        Uint64 val = Some deadline \<and> Unix 1030000000000 \<le> deadline)"
proof -
  have h: "Create 1030000000000 bob banned_bob = Return (Some BlacklistedError, banned_bob)"
    by (simp add: Create_def Create_blacklist_def db_Get_def banned_bob_def limiter0_def
        NewPersisted_def healthy_db_def Key_def Unix_def Let_def)
  from Create_blacklisted_changes_nothing [OF h] h show ?thesis by simp
qed

text \<open>
  C8.  \<open>TakeAvailable\<close> does not depend on the store.  If a call returns \<open>rst\<close>
  over one store, the same call over any other store \<open>d\<close>, failing or not, returns
  the same \<open>rst\<close>, the number the identity's bucket gave out, and leaves the same
  buckets in memory; when the write of the snapshot fails in \<open>d\<close>, the failure is
  logged and the store is left as it was.
\<close>

theorem TakeAvailable_ignores_store_failure:
  assumes "TakeAvailable now ident count r = Return (rst, r')"
  shows "\<exists>r'' bucket r1 bucket1.
      TakeAvailable now ident count (r\<lparr>db := d\<rparr>) = Return (rst, r'') \<and>
      initialized r'' = initialized r' \<and>
      getOrCreate now ident (defaultConfig r) r = Return (bucket, r1) \<and>
      Bucket_TakeAvailable now count bucket = Return (rst, bucket1) \<and>
      (broken d OpPut (Key RateLimitCapacity (prefix r) ident) \<longrightarrow>
         db r'' = d \<and> logged r'' = logged r @ [StoreFailed])"
proof -
  from assms obtain bucket r1 bucket1 avail bucket2 where
    g: "getOrCreate now ident (defaultConfig r) r = Return (bucket, r1)" and
    t: "Bucket_TakeAvailable now count bucket = Return (rst, bucket1)" and
    a: "Bucket_Available now bucket1 = Return (avail, bucket2)" and
    i: "initialized r' = (initialized r1)(ident \<mapsto> bucket2)"
    by (rule TakeAvailable_Return)
  from getOrCreate_db [OF g, of d]
  have g': "getOrCreate now ident (defaultConfig (r\<lparr>db := d\<rparr>)) (r\<lparr>db := d\<rparr>) =
      Return (bucket, r1\<lparr>db := d\<rparr>)"
    by simp
  from getOrCreate_frame [OF g] have f: "logged r1 = logged r" by simp
  show ?thesis
    using TakeAvailable_eval [OF g' t a] i f g t by simp
qed

theorem TakeAvailable_ignores_store_failure_witness:
  "TakeAvailable 0 alice 7 limiter0 = Return (7, took7) \<and>
   broken capacity_write_fails OpPut (Key RateLimitCapacity (prefix limiter0) alice) \<and>
   (\<exists>r''. TakeAvailable 0 alice 7 (limiter0\<lparr>db := capacity_write_fails\<rparr>) = Return (7, r'') \<and>
      initialized r'' = initialized took7 \<and>
      db r'' = capacity_write_fails \<and> logged r'' = [StoreFailed])"
proof -
  have h: "TakeAvailable 0 alice 7 limiter0 = Return (7, took7)"
    by (simp add: TakeAvailable_def store_def db_Put_def getOrCreate_def bucket_eval
        scenario_eval took7_def)
  have f: "broken capacity_write_fails OpPut (Key RateLimitCapacity (prefix limiter0) alice)"
    by (simp add: capacity_write_fails_def scenario_eval)
  from TakeAvailable_ignores_store_failure [OF h, of capacity_write_fails] h f show ?thesis
    by (auto simp add: scenario_eval)
qed

text \<open>
  C9.  The claim: \<open>UpdateConfig\<close> on an identity without a bucket succeeds and
  registers a full bucket, and the comparison is safe without a bucket.  The code
  does not: \<open>compare\<close> is called with the nil bucket and reads its capacity, a nil
  pointer dereference, before the \<open>old != nil\<close> test that was written for this case
  is reached.  Here alice has no bucket in a new limiter.
\<close>

theorem UpdateConfig_without_bucket_panics:
  "UpdateConfig 0 alice config10 limiter0 = Panic NilDereference"
  by (rule UpdateConfig_unregistered) (simp add: limiter0_def NewPersisted_def)

text \<open>
  C10.  The claim: the deadline is decoded only from a value that was read and
  has eight bytes.  The code does not: it decodes whenever the error is not
  \<open>ErrNotFound\<close>, so after an I/O error the nil value is decoded, and
  \<open>BigEndian.Uint64\<close> panics with an index out of range.  Here the read of
  alice's blacklist record fails.
\<close>

theorem Create_decodes_failed_blacklist_read:
  "Create 0 alice (NewPersisted blacklist_read_fails config10 []) = Panic IndexOutOfRange"
  by (rule Create_blacklist_read_error) (simp add: NewPersisted_def blacklist_read_fails_def)

end
